theory Spec2Isabelle
  imports Complex_Main
begin

section \<open>Data model\<close>

text \<open>
  Timestamps are \<open>datetime\<close> values, read here as integer microseconds on one clock.
  Each facade or cache operation takes the reading \<open>now\<close> of that clock: the value
  that \<open>datetime.now()\<close> and the store's \<open>func.now()\<close> give during the call.
  \<open>isoformat()\<close> renders a timestamp injectively, so a rendered timestamp is kept
  as the timestamp itself.
\<close>

type_synonym timestamp = int

definition hours :: "int \<Rightarrow> int" where
  "hours h = h * 3600000000"

definition minutes :: "int \<Rightarrow> int" where
  "minutes m = m * 60000000"

text \<open>JSON values of the free-form columns and dictionaries.\<close>

datatype jvalue = JNull | JBool bool | JInt int | JStr string

type_synonym jdict = "(string \<times> jvalue) list"

text \<open>
  The classification carried by the metadata of an interaction. The code reads three
  keys of it when it is a dict (\<open>isinstance(classification, dict)\<close>); a field is
  \<open>None\<close> when the key is absent.
\<close>

record classification_dict =
  cls_category :: "string option"
  cls_priority :: "string option"
  cls_requires_human_escalation :: "bool option"

datatype classification = ClsDict classification_dict | ClsOther jvalue

text \<open>An article of \<open>metadata['articles_used']\<close>; a field is \<open>None\<close> when its key is absent.\<close>

record article =
  art_id :: "string option"
  art_title :: "string option"
  art_relevance_score :: "int option"

text \<open>
  The \<open>metadata\<close> dict of \<open>add_interaction\<close> and \<open>_add_message\<close>: the four keys the
  code reads, each \<open>None\<close> when absent. The dict with no key is \<open>{}\<close>, which Python
  treats as false.
\<close>

record metadata =
  md_classification :: "classification option"
  md_articles_used :: "article list option"
  md_processing_time_ms :: "int option"
  md_tools_used :: "string list option"

definition empty_metadata :: metadata where
  "empty_metadata = \<lparr>md_classification = None, md_articles_used = None,
     md_processing_time_ms = None, md_tools_used = None\<rparr>"

text \<open>Truth value of \<open>metadata\<close> in \<open>if metadata\<close>: \<open>None\<close> and \<open>{}\<close> are false.\<close>

definition truthy_metadata :: "metadata option \<Rightarrow> bool" where
  "truthy_metadata md = (case md of None \<Rightarrow> False | Some m \<Rightarrow> m \<noteq> empty_metadata)"

record classification_entry =
  ce_timestamp :: timestamp
  ce_classification :: classification

text \<open>\<open>ConversationDB\<close>, \<open>MessageDB\<close> and \<open>KnowledgeBaseUsageDB\<close> rows.\<close>

record conversation =
  conversation_id :: string
  customer_id :: string
  status :: string
  priority :: "string option"
  category :: "string option"
  message_count :: int
  escalated :: bool
  human_agent_id :: "string option"
  customer_context :: jdict
  classification_history :: "classification_entry list"
  articles_referenced :: "string list"
  created_at :: timestamp
  updated_at :: timestamp
  resolved_at :: "timestamp option"

record message =
  msg_id :: string
  msg_conversation_id :: string
  msg_role :: string
  msg_content :: string
  msg_classification_result :: "classification option"
  msg_tools_used :: "string list"
  msg_processing_time_ms :: "int option"
  msg_created_at :: timestamp

record kb_usage =
  kb_id :: string
  kb_conversation_id :: string
  kb_article_id :: string
  kb_article_title :: string
  kb_relevance_score :: int
  kb_was_helpful :: "bool option"
  kb_created_at :: timestamp

text \<open>
  The context dict that is cached and returned by \<open>get_conversation_context\<close>. The
  last three keys are written by the store path of \<open>get_conversation_context\<close> only;
  a field is \<open>None\<close> when the dict has no such key.
\<close>

record snapshot =
  s_conversation_id :: string
  s_customer_id :: string
  s_status :: string
  s_priority :: "string option"
  s_category :: "string option"
  s_message_count :: int
  s_escalated :: bool
  s_customer_context :: jdict
  s_classification_history :: "classification_entry list"
  s_articles_referenced :: "string list"
  s_created_at :: "timestamp option"
  s_updated_at :: "timestamp option"
  s_duration_minutes :: "rat option"

text \<open>
  The message dict of the recent-message window. Its \<open>metadata\<close> value is the
  interaction's metadata dict when \<open>_add_message\<close> writes it, and the three row
  columns when \<open>get_conversation_history\<close> backfills it.
\<close>

datatype message_meta =
  InteractionMeta metadata
  | RowMeta "classification option" "string list" "int option"

record cached_message =
  cm_role :: string
  cm_content :: string
  cm_timestamp :: timestamp
  cm_metadata :: message_meta

section \<open>Cache layer (\<open>src/memory/cache.py\<close>)\<close>

text \<open>
  \<open>memory_cache\<close> and \<open>memory_expiry\<close> are dicts keyed by the strings
  \<open>conv:{id}\<close> and \<open>messages:{id}\<close>. The two prefixes never meet, so each dict is
  split by prefix into a map from the conversation id: the \<open>conv:\<close> keys hold
  snapshots and the \<open>messages:\<close> keys hold message lists. The Redis key space is split
  in the same way; a Redis key holds its value and the time at which it expires.
  \<open>redis_up\<close> says whether the server answers: when it does not, every command raises
  \<open>redis.RedisError\<close>, which each method catches.
\<close>

record redis_server =
  redis_up :: bool
  redis_conv :: "string \<rightharpoonup> (snapshot \<times> timestamp)"
  redis_messages :: "string \<rightharpoonup> (cached_message list \<times> timestamp)"

record conversation_cache =
  use_redis :: bool
  redis :: redis_server
  memory_cache_conv :: "string \<rightharpoonup> snapshot"
  memory_cache_messages :: "string \<rightharpoonup> cached_message list"
  memory_expiry_conv :: "string \<rightharpoonup> timestamp"
  memory_expiry_messages :: "string \<rightharpoonup> timestamp"

definition conversation_ttl :: int where
  "conversation_ttl = hours 4"

text \<open>Python's \<open>xs[:n]\<close>: a negative \<open>n\<close> counts from the end.\<close>

definition slice_to :: "'a list \<Rightarrow> int \<Rightarrow> 'a list" where
  "slice_to xs n = (if n < 0 then take (nat (int (length xs) + n)) xs else take (nat n) xs)"

text \<open>
  Redis \<open>LRANGE key start stop\<close> on a list value: both ends inclusive, negative
  indices count from the end, out-of-range ends are clipped. \<open>LTRIM\<close> keeps that range.
\<close>

definition redis_index :: "nat \<Rightarrow> int \<Rightarrow> int" where
  "redis_index n i = (if i < 0 then int n + i else i)"

definition lrange :: "'a list \<Rightarrow> int \<Rightarrow> int \<Rightarrow> 'a list" where
  "lrange xs start stop =
     (let n = length xs;
          s = max 0 (redis_index n start);
          e = min (int n - 1) (redis_index n stop)
      in if e < s then [] else take (nat (e - s + 1)) (drop (nat s) xs))"

text \<open>The list a Redis key holds at time \<open>now\<close>: empty when the key is missing or expired.\<close>

definition redis_list :: "redis_server \<Rightarrow> string \<Rightarrow> timestamp \<Rightarrow> cached_message list" where
  "redis_list r cid now =
     (case redis_messages r cid of
        None \<Rightarrow> []
      | Some (xs, expiry) \<Rightarrow> if now < expiry then xs else [])"

definition redis_get :: "redis_server \<Rightarrow> string \<Rightarrow> timestamp \<Rightarrow> snapshot option" where
  "redis_get r cid now =
     (case redis_conv r cid of
        None \<Rightarrow> None
      | Some (v, expiry) \<Rightarrow> if now < expiry then Some v else None)"

text \<open>\<open>_is_expired\<close>, for each of the two key prefixes.\<close>

definition is_expired :: "(string \<rightharpoonup> timestamp) \<Rightarrow> string \<Rightarrow> timestamp \<Rightarrow> bool" where
  "is_expired expiry key now =
     (case expiry key of None \<Rightarrow> True | Some t \<Rightarrow> t < now)"

definition get_conversation :: "conversation_cache \<Rightarrow> string \<Rightarrow> timestamp \<Rightarrow> snapshot option" where
  "get_conversation c cid now =
     (if use_redis c then
        (if redis_up (redis c) then redis_get (redis c) cid now else None)
      else
        (case memory_cache_conv c cid of
           Some v \<Rightarrow> if \<not> is_expired (memory_expiry_conv c) cid now then Some v else None
         | None \<Rightarrow> None))"

definition set_conversation ::
  "conversation_cache \<Rightarrow> string \<Rightarrow> snapshot \<Rightarrow> timestamp \<Rightarrow> conversation_cache" where
  "set_conversation c cid conversation_data now =
     (if use_redis c then
        (if redis_up (redis c) then
           c\<lparr>redis := (redis c)\<lparr>redis_conv :=
                (redis_conv (redis c))(cid \<mapsto> (conversation_data, now + conversation_ttl))\<rparr>\<rparr>
         else c)
      else
        c\<lparr>memory_cache_conv := (memory_cache_conv c)(cid \<mapsto> conversation_data),
          memory_expiry_conv := (memory_expiry_conv c)(cid \<mapsto> now + conversation_ttl)\<rparr>)"

definition get_recent_messages ::
  "conversation_cache \<Rightarrow> string \<Rightarrow> int \<Rightarrow> timestamp \<Rightarrow> cached_message list option" where
  "get_recent_messages c cid limit now =
     (if use_redis c then
        (if redis_up (redis c) then Some (lrange (redis_list (redis c) cid now) 0 (limit - 1))
         else None)
      else
        (case memory_cache_messages c cid of
           Some xs \<Rightarrow>
             if \<not> is_expired (memory_expiry_messages c) cid now then Some (slice_to xs limit)
             else None
         | None \<Rightarrow> None))"

definition add_message ::
  "conversation_cache \<Rightarrow> string \<Rightarrow> cached_message \<Rightarrow> timestamp \<Rightarrow> conversation_cache" where
  "add_message c cid m now =
     (if use_redis c then
        (if redis_up (redis c) then
           c\<lparr>redis := (redis c)\<lparr>redis_messages :=
                (redis_messages (redis c))
                  (cid \<mapsto> (lrange (m # redis_list (redis c) cid now) 0 49,
                            now + conversation_ttl))\<rparr>\<rparr>
         else c)
      else
        (let xs = (case memory_cache_messages c cid of None \<Rightarrow> [] | Some ys \<Rightarrow> ys)
         in c\<lparr>memory_cache_messages := (memory_cache_messages c)(cid \<mapsto> slice_to (m # xs) 50),
              memory_expiry_messages :=
                (memory_expiry_messages c)(cid \<mapsto> now + conversation_ttl)\<rparr>))"

definition invalidate_conversation :: "conversation_cache \<Rightarrow> string \<Rightarrow> conversation_cache" where
  "invalidate_conversation c cid =
     (if use_redis c then
        (if redis_up (redis c) then
           c\<lparr>redis := (redis c)\<lparr>redis_conv := (redis_conv (redis c))(cid := None),
                                 redis_messages := (redis_messages (redis c))(cid := None)\<rparr>\<rparr>
         else c)
      else
        (let c1 = (if memory_cache_conv c cid \<noteq> None
                   then c\<lparr>memory_cache_conv := (memory_cache_conv c)(cid := None),
                          memory_expiry_conv := (memory_expiry_conv c)(cid := None)\<rparr>
                   else c)
         in if memory_cache_messages c1 cid \<noteq> None
            then c1\<lparr>memory_cache_messages := (memory_cache_messages c1)(cid := None),
                    memory_expiry_messages := (memory_expiry_messages c1)(cid := None)\<rparr>
            else c1))"

text \<open>
  \<open>ConversationCache.__init__\<close>: Redis is used when the client library is there and the
  server answered the first \<open>ping\<close>; otherwise the in-process dicts are set up empty.
\<close>

definition new_cache :: "bool \<Rightarrow> conversation_cache" where
  "new_cache redis_ok =
     \<lparr>use_redis = redis_ok,
      redis = \<lparr>redis_up = redis_ok, redis_conv = Map.empty, redis_messages = Map.empty\<rparr>,
      memory_cache_conv = Map.empty, memory_cache_messages = Map.empty,
      memory_expiry_conv = Map.empty, memory_expiry_messages = Map.empty\<rparr>"

text \<open>A sequence of \<open>add_message\<close> calls, each with its conversation id, message and time.\<close>

fun add_messages ::
  "conversation_cache \<Rightarrow> (string \<times> cached_message \<times> timestamp) list \<Rightarrow> conversation_cache" where
  "add_messages c [] = c"
| "add_messages c ((cid, m, now) # calls) = add_messages (add_message c cid m now) calls"

section \<open>Durable store and sessions (\<open>src/database/connection.py\<close>)\<close>

datatype error = OperationalError | IntegrityError | DataError

record database =
  conversations :: "conversation list"
  messages :: "message list"
  knowledge_base_usage :: "kb_usage list"

text \<open>
  What a call takes from its surroundings: the clock reading, the values that the
  successive \<open>uuid.uuid4()\<close> calls return, and the round trip to the store (counted
  from 0 within the session: queries, flushes and the commit) at which the store fails
  with an \<open>OperationalError\<close>, if any.
\<close>

record env =
  clock :: timestamp
  uuid4 :: "nat \<Rightarrow> string"
  fails_at :: "nat option"

text \<open>
  A session: the rows as the open transaction sees them, the rows added but not yet
  flushed, and the counters of round trips and of identifiers drawn.
\<close>

record session =
  txn :: database
  pending_kb_usage :: "kb_usage list"
  round_trips :: nat
  uuids_drawn :: nat

definition SessionLocal :: "database \<Rightarrow> session" where
  "SessionLocal d = \<lparr>txn = d, pending_kb_usage = [], round_trips = 0, uuids_drawn = 0\<rparr>"

definition round_trip :: "env \<Rightarrow> session \<Rightarrow> error + session" where
  "round_trip e s =
     (if fails_at e = Some (round_trips s) then Inl OperationalError
      else Inr (s\<lparr>round_trips := Suc (round_trips s)\<rparr>))"

definition next_uuid :: "env \<Rightarrow> session \<Rightarrow> string \<times> session" where
  "next_uuid e s = (uuid4 e (uuids_drawn s), s\<lparr>uuids_drawn := Suc (uuids_drawn s)\<rparr>)"

text \<open>
  \<open>session.add(row); session.flush()\<close> for a conversation and for a message: the
  INSERT fails on a primary key already there and, for a message, on a conversation id
  that is not in the conversations table (the foreign key).
\<close>

definition flush_conversation :: "env \<Rightarrow> session \<Rightarrow> conversation \<Rightarrow> error + session" where
  "flush_conversation e s conv =
     (case round_trip e s of
        Inl err \<Rightarrow> Inl err
      | Inr s1 \<Rightarrow>
          if conversation_id conv \<in> set (map conversation_id (conversations (txn s1)))
          then Inl IntegrityError
          else Inr (s1\<lparr>txn := (txn s1)\<lparr>conversations := conversations (txn s1) @ [conv]\<rparr>\<rparr>))"

definition flush_message :: "env \<Rightarrow> session \<Rightarrow> message \<Rightarrow> error + session" where
  "flush_message e s m =
     (case round_trip e s of
        Inl err \<Rightarrow> Inl err
      | Inr s1 \<Rightarrow>
          if msg_id m \<in> set (map msg_id (messages (txn s1)))
             \<or> msg_conversation_id m \<notin> set (map conversation_id (conversations (txn s1)))
          then Inl IntegrityError
          else Inr (s1\<lparr>txn := (txn s1)\<lparr>messages := messages (txn s1) @ [m]\<rparr>\<rparr>))"

text \<open>The pending knowledge-base rows are inserted by the flush that \<open>commit\<close> does.\<close>

fun flush_kb_usage :: "database \<Rightarrow> kb_usage list \<Rightarrow> error + database" where
  "flush_kb_usage d [] = Inr d"
| "flush_kb_usage d (u # us) =
     (if kb_id u \<in> set (map kb_id (knowledge_base_usage d))
         \<or> kb_conversation_id u \<notin> set (map conversation_id (conversations d))
      then Inl IntegrityError
      else flush_kb_usage (d\<lparr>knowledge_base_usage := knowledge_base_usage d @ [u]\<rparr>) us)"

definition commit :: "env \<Rightarrow> session \<Rightarrow> error + database" where
  "commit e s =
     (case round_trip e s of
        Inl err \<Rightarrow> Inl err
      | Inr s1 \<Rightarrow> flush_kb_usage (txn s1) (pending_kb_usage s1))"

text \<open>
  \<open>get_session\<close>: the body runs on a new session; when it returns, the session is
  committed; when the body or the commit raises, the session is rolled back, so the
  store keeps the rows it had, and the error is raised again. The cache is not part of
  the transaction: what the body wrote to it stays.
\<close>

definition get_session ::
  "database \<Rightarrow> env \<Rightarrow> conversation_cache \<Rightarrow>
   (session \<Rightarrow> conversation_cache \<Rightarrow> (error + 'a \<times> session) \<times> conversation_cache) \<Rightarrow>
   (error + 'a) \<times> database \<times> conversation_cache" where
  "get_session d e c body =
     (case body (SessionLocal d) c of
        (Inl err, c1) \<Rightarrow> (Inl err, d, c1)
      | (Inr (v, s), c1) \<Rightarrow>
          (case commit e s of
             Inl err \<Rightarrow> (Inl err, d, c1)
           | Inr d1 \<Rightarrow> (Inr v, d1, c1)))"

text \<open>The queries of the facade. Each is one round trip.\<close>

definition active_recent :: "string \<Rightarrow> timestamp \<Rightarrow> conversation \<Rightarrow> bool" where
  "active_recent cust now conv \<longleftrightarrow>
     customer_id conv = cust
     \<and> status conv \<in> set [''open'', ''in_progress'']
     \<and> updated_at conv > now - hours 4"

text \<open>
  \<open>order_by(desc(updated_at)).first()\<close>: a row with the latest \<open>updated_at\<close>. Among
  rows that share it the store may return any; the model returns the one inserted last.
\<close>

definition first_by_updated_at_desc :: "conversation list \<Rightarrow> conversation option" where
  "first_by_updated_at_desc rows =
     (case rev (sort_key updated_at rows) of [] \<Rightarrow> None | conv # _ \<Rightarrow> Some conv)"

definition query_recent_conversation ::
  "env \<Rightarrow> session \<Rightarrow> string \<Rightarrow> error + conversation option \<times> session" where
  "query_recent_conversation e s cust =
     (case round_trip e s of
        Inl err \<Rightarrow> Inl err
      | Inr s1 \<Rightarrow>
          Inr (first_by_updated_at_desc
                 (filter (active_recent cust (clock e)) (conversations (txn s1))), s1))"

definition query_conversation ::
  "env \<Rightarrow> session \<Rightarrow> string \<Rightarrow> error + conversation option \<times> session" where
  "query_conversation e s cid =
     (case round_trip e s of
        Inl err \<Rightarrow> Inl err
      | Inr s1 \<Rightarrow> Inr (find (\<lambda>conv. conversation_id conv = cid) (conversations (txn s1)), s1))"

text \<open>
  \<open>filter_by(conversation_id=...).order_by(created_at).limit(limit).all()\<close>; the store
  rejects a negative LIMIT.
\<close>

definition query_messages ::
  "env \<Rightarrow> session \<Rightarrow> string \<Rightarrow> int \<Rightarrow> error + message list \<times> session" where
  "query_messages e s cid limit =
     (case round_trip e s of
        Inl err \<Rightarrow> Inl err
      | Inr s1 \<Rightarrow>
          if limit < 0 then Inl DataError
          else Inr (take (nat limit)
                      (sort_key msg_created_at
                         (filter (\<lambda>m. msg_conversation_id m = cid) (messages (txn s1)))), s1))"

text \<open>
  An attribute assignment on a loaded conversation object: the session writes the
  changed row back (the UPDATE is keyed by the primary key).
\<close>

definition update_row :: "session \<Rightarrow> conversation \<Rightarrow> session" where
  "update_row s conv =
     s\<lparr>txn := (txn s)\<lparr>conversations :=
          map (\<lambda>r. if conversation_id r = conversation_id conv then conv else r)
              (conversations (txn s))\<rparr>\<rparr>"

section \<open>Conversation memory facade (\<open>src/memory/production_memory.py\<close>)\<close>

text \<open>The state the facade works on: the committed store and the cache.\<close>

record world =
  db :: database
  cache :: conversation_cache

text \<open>\<open>_cache_conversation\<close>: the snapshot has no timestamp and no duration key.\<close>

definition internal_cache_conversation ::
  "conversation_cache \<Rightarrow> conversation \<Rightarrow> timestamp \<Rightarrow> conversation_cache" where
  "internal_cache_conversation c conv now =
     set_conversation c (conversation_id conv)
       \<lparr>s_conversation_id = conversation_id conv,
        s_customer_id = customer_id conv,
        s_status = status conv,
        s_priority = priority conv,
        s_category = category conv,
        s_message_count = message_count conv,
        s_escalated = escalated conv,
        s_customer_context = customer_context conv,
        s_classification_history = classification_history conv,
        s_articles_referenced = articles_referenced conv,
        s_created_at = None,
        s_updated_at = None,
        s_duration_minutes = None\<rparr>
       now"

text \<open>
  \<open>_add_message\<close>: the row is added and flushed, then the message is pushed to the
  cache window, inside the transaction that the caller has open.
\<close>

definition internal_add_message ::
  "env \<Rightarrow> session \<Rightarrow> conversation_cache \<Rightarrow> string \<Rightarrow> string \<Rightarrow> string \<Rightarrow> metadata option \<Rightarrow>
   (error + message \<times> session) \<times> conversation_cache" where
  "internal_add_message e s c cid role content md =
     (let (new_id, s1) = next_uuid e s;
          message =
            \<lparr>msg_id = new_id,
             msg_conversation_id = cid,
             msg_role = role,
             msg_content = content,
             msg_classification_result =
               (case md of None \<Rightarrow> None
                | Some m \<Rightarrow> if truthy_metadata md then md_classification m else None),
             msg_tools_used =
               (case md of None \<Rightarrow> []
                | Some m \<Rightarrow>
                    if truthy_metadata md
                    then (case md_tools_used m of None \<Rightarrow> [] | Some ts \<Rightarrow> ts)
                    else []),
             msg_processing_time_ms =
               (case md of None \<Rightarrow> None
                | Some m \<Rightarrow> if truthy_metadata md then md_processing_time_ms m else None),
             msg_created_at = clock e\<rparr>
      in case flush_message e s1 message of
           Inl err \<Rightarrow> (Inl err, c)
         | Inr s2 \<Rightarrow>
             (Inr (message, s2),
              add_message c cid
                \<lparr>cm_role = role,
                 cm_content = content,
                 cm_timestamp = msg_created_at message,
                 cm_metadata =
                   InteractionMeta (case md of None \<Rightarrow> empty_metadata | Some m \<Rightarrow> m)\<rparr>
                (clock e)))"

text \<open>\<open>_track_kb_usage\<close>: one pending row for each article.\<close>

fun internal_track_kb_usage :: "env \<Rightarrow> session \<Rightarrow> string \<Rightarrow> article list \<Rightarrow> session" where
  "internal_track_kb_usage e s cid [] = s"
| "internal_track_kb_usage e s cid (a # arts) =
     (let (new_id, s1) = next_uuid e s;
          usage =
            \<lparr>kb_id = new_id,
             kb_conversation_id = cid,
             kb_article_id = (case art_id a of None \<Rightarrow> ''unknown'' | Some i \<Rightarrow> i),
             kb_article_title = (case art_title a of None \<Rightarrow> [] | Some t \<Rightarrow> t),
             kb_relevance_score = (case art_relevance_score a of None \<Rightarrow> 0 | Some r \<Rightarrow> r),
             kb_was_helpful = None,
             kb_created_at = clock e\<rparr>
      in internal_track_kb_usage e
           (s1\<lparr>pending_kb_usage := pending_kb_usage s1 @ [usage]\<rparr>) cid arts)"

subsection \<open>\<open>start_or_get_conversation\<close>\<close>

definition new_conversation_row :: "string \<Rightarrow> string \<Rightarrow> jdict option \<Rightarrow> timestamp \<Rightarrow> conversation" where
  "new_conversation_row new_id cust ctx now =
     \<lparr>conversation_id = new_id,
      customer_id = cust,
      status = ''open'',
      priority = None,
      category = None,
      message_count = 1,
      escalated = False,
      human_agent_id = None,
      customer_context = (case ctx of None \<Rightarrow> [] | Some d \<Rightarrow> d),
      classification_history = [],
      articles_referenced = [],
      created_at = now,
      updated_at = now,
      resolved_at = None\<rparr>"

definition start_or_get_conversation_body ::
  "env \<Rightarrow> string \<Rightarrow> string \<Rightarrow> jdict option \<Rightarrow> session \<Rightarrow> conversation_cache \<Rightarrow>
   (error + string \<times> session) \<times> conversation_cache" where
  "start_or_get_conversation_body e cust initial_message ctx s c =
     (case query_recent_conversation e s cust of
        Inl err \<Rightarrow> (Inl err, c)
      | Inr (Some recent_conversation, s1) \<Rightarrow>
          (case internal_add_message e s1 c (conversation_id recent_conversation)
                  ''user'' initial_message None of
             (Inl err, c1) \<Rightarrow> (Inl err, c1)
           | (Inr (m, s2), c1) \<Rightarrow> (Inr (conversation_id recent_conversation, s2), c1))
      | Inr (None, s1) \<Rightarrow>
          (let (new_id, s2) = next_uuid e s1;
               new_conversation = new_conversation_row new_id cust ctx (clock e)
           in case flush_conversation e s2 new_conversation of
                Inl err \<Rightarrow> (Inl err, c)
              | Inr s3 \<Rightarrow>
                  (case internal_add_message e s3 c new_id ''user'' initial_message None of
                     (Inl err, c1) \<Rightarrow> (Inl err, c1)
                   | (Inr (m, s4), c1) \<Rightarrow>
                       (Inr (new_id, s4),
                        internal_cache_conversation c1 new_conversation (clock e)))))"

definition start_or_get_conversation ::
  "world \<Rightarrow> env \<Rightarrow> string \<Rightarrow> string \<Rightarrow> jdict option \<Rightarrow> (error + string) \<times> world" where
  "start_or_get_conversation w e cust initial_message ctx =
     (case get_session (db w) e (cache w)
             (start_or_get_conversation_body e cust initial_message ctx) of
        (r, d, c) \<Rightarrow> (r, \<lparr>db = d, cache = c\<rparr>))"

subsection \<open>\<open>add_interaction\<close>\<close>

text \<open>
  The classification branch, on the loaded conversation object: the entry is appended
  to the history list and, for a dict, the three conversation-level fields are
  overwritten.
\<close>

definition record_classification :: "conversation \<Rightarrow> classification \<Rightarrow> timestamp \<Rightarrow> conversation" where
  "record_classification conv cl now =
     (let conv1 = conv\<lparr>classification_history :=
                    classification_history conv
                      @ [\<lparr>ce_timestamp = now, ce_classification = cl\<rparr>]\<rparr>
      in case cl of
           ClsDict d \<Rightarrow>
             conv1\<lparr>category := cls_category d,
                   priority := cls_priority d,
                   escalated := (case cls_requires_human_escalation d of
                                   None \<Rightarrow> False | Some b \<Rightarrow> b)\<rparr>
         | ClsOther v \<Rightarrow> conv1)"

text \<open>
  The row that the session writes back for the object. Attribute assignments are
  tracked. \<open>classification_history\<close> is a plain JSON column: the code assigns it (a new
  list) only when the loaded history is empty, and otherwise appends to the loaded list
  in place, which the session does not notice. So the row written keeps the loaded
  history unless that was empty; the object, which is what gets cached, has the
  appended entry in both cases.
\<close>

definition written_row :: "conversation \<Rightarrow> conversation \<Rightarrow> conversation" where
  "written_row loaded obj =
     (if classification_history loaded = [] then obj
      else obj\<lparr>classification_history := classification_history loaded\<rparr>)"

definition add_interaction_body ::
  "env \<Rightarrow> string \<Rightarrow> string \<Rightarrow> string \<Rightarrow> metadata option \<Rightarrow> session \<Rightarrow> conversation_cache \<Rightarrow>
   (error + unit \<times> session) \<times> conversation_cache" where
  "add_interaction_body e cid user_message agent_response md s c =
     (case internal_add_message e s c cid ''user'' user_message None of
        (Inl err, c1) \<Rightarrow> (Inl err, c1)
      | (Inr (user_msg, s1), c1) \<Rightarrow>
          (case internal_add_message e s1 c1 cid ''assistant'' agent_response md of
             (Inl err, c2) \<Rightarrow> (Inl err, c2)
           | (Inr (agent_msg, s2), c2) \<Rightarrow>
               (case query_conversation e s2 cid of
                  Inl err \<Rightarrow> (Inl err, c2)
                | Inr (None, s3) \<Rightarrow> (Inr ((), s3), c2)
                | Inr (Some conversation, s3) \<Rightarrow>
                    (let conv1 = conversation\<lparr>message_count := message_count conversation + 2,
                                              updated_at := clock e\<rparr>;
                         conv2 = (case Option.bind md md_classification of
                                    None \<Rightarrow> conv1
                                  | Some cl \<Rightarrow> record_classification conv1 cl (clock e));
                         s4 = update_row s3 (written_row conversation conv2);
                         s5 = (case Option.bind md md_articles_used of
                                 None \<Rightarrow> s4
                               | Some arts \<Rightarrow> internal_track_kb_usage e s4 cid arts)
                     in (Inr ((), s5), internal_cache_conversation c2 conv2 (clock e))))))"

definition add_interaction ::
  "world \<Rightarrow> env \<Rightarrow> string \<Rightarrow> string \<Rightarrow> string \<Rightarrow> metadata option \<Rightarrow> (error + unit) \<times> world" where
  "add_interaction w e cid user_message agent_response md =
     (case get_session (db w) e (cache w)
             (add_interaction_body e cid user_message agent_response md) of
        (r, d, c) \<Rightarrow> (r, \<lparr>db = d, cache = c\<rparr>))"

subsection \<open>\<open>get_conversation_history\<close>\<close>

definition history_entry :: "message \<Rightarrow> cached_message" where
  "history_entry msg =
     \<lparr>cm_role = msg_role msg,
      cm_content = msg_content msg,
      cm_timestamp = msg_created_at msg,
      cm_metadata = RowMeta (msg_classification_result msg) (msg_tools_used msg)
                      (msg_processing_time_ms msg)\<rparr>"

definition get_conversation_history_body ::
  "env \<Rightarrow> string \<Rightarrow> int \<Rightarrow> session \<Rightarrow> conversation_cache \<Rightarrow>
   (error + cached_message list \<times> session) \<times> conversation_cache" where
  "get_conversation_history_body e cid limit s c =
     (case query_messages e s cid limit of
        Inl err \<Rightarrow> (Inl err, c)
      | Inr (msgs, s1) \<Rightarrow>
          (let history = map history_entry msgs
           in (Inr (history, s1),
               if history \<noteq> []
               then foldl (\<lambda>c1 msg. add_message c1 cid msg (clock e)) c history
               else c)))"

definition get_conversation_history ::
  "world \<Rightarrow> env \<Rightarrow> string \<Rightarrow> int \<Rightarrow> (error + cached_message list) \<times> world" where
  "get_conversation_history w e cid limit =
     (case get_recent_messages (cache w) cid limit (clock e) of
        Some (m # ms) \<Rightarrow> (Inr (m # ms), w)
      | _ \<Rightarrow>
          (case get_session (db w) e (cache w) (get_conversation_history_body e cid limit) of
             (r, d, c) \<Rightarrow> (r, \<lparr>db = d, cache = c\<rparr>)))"

subsection \<open>\<open>get_conversation_context\<close>\<close>

definition context_of :: "conversation \<Rightarrow> snapshot" where
  "context_of conv =
     \<lparr>s_conversation_id = conversation_id conv,
      s_customer_id = customer_id conv,
      s_status = status conv,
      s_priority = priority conv,
      s_category = category conv,
      s_message_count = message_count conv,
      s_escalated = escalated conv,
      s_customer_context = customer_context conv,
      s_classification_history = classification_history conv,
      s_articles_referenced = articles_referenced conv,
      s_created_at = Some (created_at conv),
      s_updated_at = Some (updated_at conv),
      s_duration_minutes =
        Some (of_int (updated_at conv - created_at conv) / of_int (minutes 1))\<rparr>"

definition get_conversation_context_body ::
  "env \<Rightarrow> string \<Rightarrow> session \<Rightarrow> conversation_cache \<Rightarrow>
   (error + snapshot option \<times> session) \<times> conversation_cache" where
  "get_conversation_context_body e cid s c =
     (case query_conversation e s cid of
        Inl err \<Rightarrow> (Inl err, c)
      | Inr (None, s1) \<Rightarrow> (Inr (None, s1), c)
      | Inr (Some conv, s1) \<Rightarrow>
          (Inr (Some (context_of conv), s1), set_conversation c cid (context_of conv) (clock e)))"

definition get_conversation_context ::
  "world \<Rightarrow> env \<Rightarrow> string \<Rightarrow> (error + snapshot option) \<times> world" where
  "get_conversation_context w e cid =
     (case get_conversation (cache w) cid (clock e) of
        Some cached_context \<Rightarrow> (Inr (Some cached_context), w)
      | None \<Rightarrow>
          (case get_session (db w) e (cache w) (get_conversation_context_body e cid) of
             (r, d, c) \<Rightarrow> (r, \<lparr>db = d, cache = c\<rparr>)))"

subsection \<open>\<open>update_conversation_status\<close>\<close>

definition update_conversation_status_body ::
  "env \<Rightarrow> string \<Rightarrow> string \<Rightarrow> string option \<Rightarrow> session \<Rightarrow> conversation_cache \<Rightarrow>
   (error + unit \<times> session) \<times> conversation_cache" where
  "update_conversation_status_body e cid new_status agent s c =
     (case query_conversation e s cid of
        Inl err \<Rightarrow> (Inl err, c)
      | Inr (None, s1) \<Rightarrow> (Inr ((), s1), c)
      | Inr (Some conv, s1) \<Rightarrow>
          (let conv1 = conv\<lparr>status := new_status, updated_at := clock e\<rparr>;
               conv2 = (if new_status = ''resolved''
                        then conv1\<lparr>resolved_at := Some (clock e)\<rparr> else conv1);
               conv3 = (if new_status = ''escalated''
                        then conv2\<lparr>escalated := True, human_agent_id := agent\<rparr> else conv2)
           in (Inr ((), update_row s1 conv3), invalidate_conversation c cid)))"

definition update_conversation_status ::
  "world \<Rightarrow> env \<Rightarrow> string \<Rightarrow> string \<Rightarrow> string option \<Rightarrow> (error + unit) \<times> world" where
  "update_conversation_status w e cid new_status agent =
     (case get_session (db w) e (cache w)
             (update_conversation_status_body e cid new_status agent) of
        (r, d, c) \<Rightarrow> (r, \<lparr>db = d, cache = c\<rparr>))"

section \<open>Invariants and scenarios\<close>

text \<open>The sliding-window bound: no cached message list is longer than 50.\<close>

definition window_capped :: "conversation_cache \<Rightarrow> bool" where
  "window_capped c \<longleftrightarrow>
     (\<forall>cid xs. memory_cache_messages c cid = Some xs \<longrightarrow> length xs \<le> 50) \<and>
     (\<forall>cid p. redis_messages (redis c) cid = Some p \<longrightarrow> length (fst p) \<le> 50)"

text \<open>
  Concrete surroundings and states for the scenarios below: the \<open>n\<close>-th identifier of
  a call is a prefix followed by \<open>n\<close> letters x; a store with one open conversation
  \<open>c1\<close> of customer \<open>cust\<close>, created at time 1000 with its first user message, as
  \<open>start_or_get_conversation\<close> leaves it; and the same conversation with a second
  message.
\<close>

definition uuid_seq :: "string \<Rightarrow> nat \<Rightarrow> string" where
  "uuid_seq p n = p @ replicate n CHR ''x''"

definition env_at :: "timestamp \<Rightarrow> string \<Rightarrow> nat option \<Rightarrow> env" where
  "env_at t p f = \<lparr>clock = t, uuid4 = uuid_seq p, fails_at = f\<rparr>"

definition empty_db :: database where
  "empty_db = \<lparr>conversations = [], messages = [], knowledge_base_usage = []\<rparr>"

definition empty_world :: "bool \<Rightarrow> world" where
  "empty_world redis_ok = \<lparr>db = empty_db, cache = new_cache redis_ok\<rparr>"

definition conv_c1 :: conversation where
  "conv_c1 = new_conversation_row ''c1'' ''cust'' None 1000"

definition msg_m1 :: message where
  "msg_m1 =
     \<lparr>msg_id = ''m1'', msg_conversation_id = ''c1'', msg_role = ''user'',
      msg_content = ''hello'', msg_classification_result = None, msg_tools_used = [],
      msg_processing_time_ms = None, msg_created_at = 1000\<rparr>"

definition msg_m2 :: message where
  "msg_m2 =
     \<lparr>msg_id = ''m2'', msg_conversation_id = ''c1'', msg_role = ''assistant'',
      msg_content = ''hi there'', msg_classification_result = None, msg_tools_used = [],
      msg_processing_time_ms = None, msg_created_at = 2000\<rparr>"

definition db_c1 :: database where
  "db_c1 = \<lparr>conversations = [conv_c1], messages = [msg_m1], knowledge_base_usage = []\<rparr>"

definition world_c1 :: world where
  "world_c1 = \<lparr>db = db_c1, cache = new_cache False\<rparr>"

definition world_c1_two_messages :: world where
  "world_c1_two_messages =
     \<lparr>db = \<lparr>conversations = [conv_c1\<lparr>message_count := 2, updated_at := 2000\<rparr>],
            messages = [msg_m1, msg_m2], knowledge_base_usage = []\<rparr>,
      cache = new_cache False\<rparr>"

text \<open>
  The Redis server becoming unreachable, or reachable again, between two calls; and the
  state of the scenario after the context of \<open>c1\<close> has been read once at time 1500, so
  that the cache holds its snapshot.
\<close>

definition set_redis_up :: "bool \<Rightarrow> world \<Rightarrow> world" where
  "set_redis_up up w = w\<lparr>cache := (cache w)\<lparr>redis := (redis (cache w))\<lparr>redis_up := up\<rparr>\<rparr>\<rparr>"

definition world_c1_warm :: "bool \<Rightarrow> world" where
  "world_c1_warm redis_ok =
     snd (get_conversation_context \<lparr>db = db_c1, cache = new_cache redis_ok\<rparr>
            (env_at 1500 ''w'' None) ''c1'')"

definition three_messages :: "(string \<times> cached_message \<times> timestamp) list" where
  "three_messages =
     [(''c1'', history_entry msg_m1, 1000),
      (''c1'', history_entry msg_m2, 2000),
      (''c1'', history_entry (msg_m1\<lparr>msg_content := ''thanks'', msg_created_at := 3000\<rparr>), 3000)]"

text \<open>The dict that \<open>_add_message\<close> pushes to the cache window for a row it has flushed.\<close>

definition message_dict :: "env \<Rightarrow> string \<Rightarrow> string \<Rightarrow> metadata option \<Rightarrow> cached_message" where
  "message_dict e role content md =
     \<lparr>cm_role = role, cm_content = content, cm_timestamp = clock e,
      cm_metadata = InteractionMeta (case md of None \<Rightarrow> empty_metadata | Some m \<Rightarrow> m)\<rparr>"

section \<open>The sliding window of recent messages\<close>

lemma length_slice_to_le: "length (slice_to xs n) \<le> length xs"
  by (auto simp add: slice_to_def)

lemma length_slice_to_limit: "0 \<le> n \<Longrightarrow> int (length (slice_to xs n)) \<le> n"
  by (simp add: slice_to_def)

lemma length_take_drop_le: "length (take n (drop k xs)) \<le> length xs"
  by (induction xs arbitrary: n k) (auto simp add: min_def)

lemma length_lrange_le: "length (lrange xs s e) \<le> length xs"
  unfolding lrange_def Let_def using length_take_drop_le [of _ _ xs] by auto

lemma length_lrange_limit: "1 \<le> n \<Longrightarrow> int (length (lrange xs 0 (n - 1))) \<le> n"
  by (auto simp add: lrange_def Let_def redis_index_def)

lemma window_capped_new: "window_capped (new_cache b)"
  by (simp add: window_capped_def new_cache_def)

lemma length_redis_list: "window_capped c \<Longrightarrow> length (redis_list (redis c) cid now) \<le> 50"
  by (force simp add: window_capped_def redis_list_def split: option.splits)

lemma window_capped_add_message: "window_capped c \<Longrightarrow> window_capped (add_message c cid m now)"
  using length_slice_to_limit [of 50] length_lrange_limit [of 50]
  by (auto simp add: window_capped_def add_message_def Let_def split: option.splits if_splits)

lemma window_capped_add_messages: "window_capped c \<Longrightarrow> window_capped (add_messages c calls)"
  by (induction c calls rule: add_messages.induct) (simp_all add: window_capped_add_message)

lemma get_recent_messages_capped:
  assumes "window_capped c" and "get_recent_messages c cid limit now = Some xs"
  shows "length xs \<le> 50"
proof (cases "use_redis c")
  case True
  with assms(2) have "xs = lrange (redis_list (redis c) cid now) 0 (limit - 1)"
    by (auto simp add: get_recent_messages_def split: if_splits)
  then show ?thesis
    using length_lrange_le [of "redis_list (redis c) cid now" 0 "limit - 1"]
      length_redis_list [OF assms(1), of cid now] by simp
next
  case False
  with assms(2) obtain ys where ys: "memory_cache_messages c cid = Some ys" "xs = slice_to ys limit"
    by (auto simp add: get_recent_messages_def split: if_splits option.splits)
  from assms(1) ys(1) have "length ys \<le> 50" by (simp add: window_capped_def)
  with ys(2) length_slice_to_le [of ys limit] show ?thesis by simp
qed

lemma get_recent_messages_limit:
  assumes "get_recent_messages c cid limit now = Some xs"
    and "1 \<le> limit \<or> (limit = 0 \<and> \<not> use_redis c)"
  shows "int (length xs) \<le> limit"
  using assms length_slice_to_limit length_lrange_limit
  by (auto simp add: get_recent_messages_def split: if_splits option.splits)

lemma use_redis_add_message: "use_redis (add_message c cid m now) = use_redis c"
  by (simp add: add_message_def Let_def)

lemma use_redis_add_messages: "use_redis (add_messages c calls) = use_redis c"
  by (induction c calls rule: add_messages.induct) (simp_all add: use_redis_add_message)

text \<open>
  The cap of the window. Whatever \<open>add_message\<close> calls were made on a new cache,
  \<open>get_recent_messages\<close> returns at most 50 messages for every limit; it returns at most
  \<open>limit\<close> messages when the limit is at least 1, and on the in-process backend also
  when the limit is 0.
\<close>

lemma recent_messages_window_cap:
  assumes "get_recent_messages (add_messages (new_cache redis_ok) calls) cid limit now = Some xs"
  shows "length xs \<le> 50 \<and> (1 \<le> limit \<or> (limit = 0 \<and> \<not> redis_ok) \<longrightarrow> int (length xs) \<le> limit)"
proof -
  have "window_capped (add_messages (new_cache redis_ok) calls)"
    by (simp add: window_capped_new window_capped_add_messages)
  then have "length xs \<le> 50" using assms by (rule get_recent_messages_capped)
  moreover have "use_redis (add_messages (new_cache redis_ok) calls) = redis_ok"
    by (simp add: use_redis_add_messages new_cache_def)
  then have "1 \<le> limit \<or> (limit = 0 \<and> \<not> redis_ok) \<Longrightarrow> int (length xs) \<le> limit"
    using get_recent_messages_limit [OF assms] by simp
  ultimately show ?thesis by blast
qed

text \<open>
  Claim C8 fails at limit 0 on the Redis backend. Three messages are pushed. The
  in-process path returns \<open>xs[:0]\<close>, no message; the Redis path asks for
  \<open>LRANGE key 0 (limit - 1)\<close>, that is \<open>LRANGE key 0 -1\<close>, and returns the whole
  window of three messages for a limit of 0.
\<close>

theorem redis_limit_zero_returns_window:
  "get_recent_messages (add_messages (new_cache False) three_messages) ''c1'' 0 4000 = Some []
   \<and> map_option (map cm_content)
        (get_recent_messages (add_messages (new_cache True) three_messages) ''c1'' 0 4000)
     = Some [''thanks'', ''hi there'', ''hello'']
   \<and> map_option length
        (get_recent_messages (add_messages (new_cache True) three_messages) ''c1'' 0 4000)
     = Some 3"
  by code_simp

section \<open>Store and session lemmas\<close>

lemma flush_kb_usage_keeps:
  "flush_kb_usage d us = Inr d1 \<Longrightarrow>
     conversations d1 = conversations d \<and> messages d1 = messages d"
  by (induction d us rule: flush_kb_usage.induct) (auto split: if_splits)

lemma commit_keeps:
  "commit e s = Inr d1 \<Longrightarrow>
     conversations d1 = conversations (txn s) \<and> messages d1 = messages (txn s)"
  by (auto simp add: commit_def round_trip_def dest: flush_kb_usage_keeps split: sum.splits if_splits)

lemma find_update_row:
  assumes "find (\<lambda>c. conversation_id c = cid) rows = Some conv"
    and "conversation_id conv1 = cid"
  shows "find (\<lambda>c. conversation_id c = cid)
           (map (\<lambda>r. if conversation_id r = cid then conv1 else r) rows) = Some conv1"
  using assms by (induction rows) (auto split: if_splits)

lemma find_conversation_id:
  "find (\<lambda>c. conversation_id c = cid) rows = Some conv \<Longrightarrow> conversation_id conv = cid"
  by (induction rows) (auto split: if_splits)

lemma find_present:
  "cid \<in> set (map conversation_id rows) \<Longrightarrow> \<exists>conv. find (\<lambda>c. conversation_id c = cid) rows = Some conv"
  by (induction rows) auto

lemma find_absent:
  "cid \<notin> set (map conversation_id rows) \<Longrightarrow> find (\<lambda>c. conversation_id c = cid) rows = None"
  by (induction rows) auto

lemma find_conversation_present:
  "find (\<lambda>r. conversation_id r = cid) rows = Some conv \<Longrightarrow>
     cid \<in> set (map conversation_id rows)"
  by (induction rows) (auto split: if_splits)

lemma get_conversation_invalidated:
  "get_conversation (invalidate_conversation c cid) cid now = None"
  by (simp add: get_conversation_def invalidate_conversation_def redis_get_def Let_def)

lemma internal_add_message_result:
  assumes "internal_add_message e s c cid role content md = (r, c1)"
  shows "case r of
           Inl err \<Rightarrow> c1 = c
         | Inr (m, s1) \<Rightarrow>
             txn s1 = (txn s)\<lparr>messages := messages (txn s) @ [m]\<rparr>
             \<and> msg_id m = uuid4 e (uuids_drawn s)
             \<and> msg_conversation_id m = cid \<and> msg_role m = role \<and> msg_content m = content
             \<and> msg_created_at m = clock e
             \<and> cid \<in> set (map conversation_id (conversations (txn s)))
             \<and> pending_kb_usage s1 = pending_kb_usage s
             \<and> round_trips s1 = Suc (round_trips s)
             \<and> uuids_drawn s1 = Suc (uuids_drawn s)
             \<and> fails_at e \<noteq> Some (round_trips s)
             \<and> c1 = add_message c cid
                      \<lparr>cm_role = role, cm_content = content, cm_timestamp = clock e,
                       cm_metadata = InteractionMeta (case md of None \<Rightarrow> empty_metadata | Some m \<Rightarrow> m)\<rparr>
                      (clock e)"
  using assms
  by (auto simp add: internal_add_message_def next_uuid_def flush_message_def round_trip_def Let_def
      split: sum.splits if_splits prod.splits)

lemma internal_add_message_fault:
  "fails_at e = Some (round_trips s) \<Longrightarrow>
     internal_add_message e s c cid role content md = (Inl OperationalError, c)"
  by (simp add: internal_add_message_def next_uuid_def flush_message_def round_trip_def Let_def)

lemma internal_add_message_ok:
  assumes "fails_at e \<noteq> Some (round_trips s)"
    and "uuid4 e (uuids_drawn s) \<notin> set (map msg_id (messages (txn s)))"
    and "cid \<in> set (map conversation_id (conversations (txn s)))"
  shows "\<exists>m s1. internal_add_message e s c cid role content md
                  = (Inr (m, s1), add_message c cid (message_dict e role content md) (clock e))
           \<and> txn s1 = (txn s)\<lparr>messages := messages (txn s) @ [m]\<rparr>
           \<and> msg_id m = uuid4 e (uuids_drawn s)
           \<and> msg_conversation_id m = cid \<and> msg_role m = role \<and> msg_content m = content
           \<and> round_trips s1 = Suc (round_trips s)
           \<and> uuids_drawn s1 = Suc (uuids_drawn s)
           \<and> pending_kb_usage s1 = pending_kb_usage s"
  using assms
  by (simp add: internal_add_message_def next_uuid_def flush_message_def round_trip_def Let_def
      message_dict_def)

lemma record_classification_keeps:
  "conversation_id (record_classification conv cl now) = conversation_id conv"
  "customer_id (record_classification conv cl now) = customer_id conv"
  "status (record_classification conv cl now) = status conv"
  "message_count (record_classification conv cl now) = message_count conv"
  "updated_at (record_classification conv cl now) = updated_at conv"
  "created_at (record_classification conv cl now) = created_at conv"
  by (simp_all add: record_classification_def Let_def split: classification.splits)

lemma written_row_keeps:
  "conversation_id (written_row loaded obj) = conversation_id obj"
  "customer_id (written_row loaded obj) = customer_id obj"
  "status (written_row loaded obj) = status obj"
  "message_count (written_row loaded obj) = message_count obj"
  "updated_at (written_row loaded obj) = updated_at obj"
  "created_at (written_row loaded obj) = created_at obj"
  by (simp_all add: written_row_def)

lemma internal_track_kb_usage_txn:
  "txn (internal_track_kb_usage e s cid arts) = txn s"
  by (induction e s cid arts rule: internal_track_kb_usage.induct)
     (simp_all add: next_uuid_def Let_def)

lemma internal_track_kb_usage_round_trips:
  "round_trips (internal_track_kb_usage e s cid arts) = round_trips s"
  by (induction e s cid arts rule: internal_track_kb_usage.induct)
     (simp_all add: next_uuid_def Let_def)

lemma first_by_updated_at_desc_None:
  "first_by_updated_at_desc rows = None \<longleftrightarrow> rows = []"
proof -
  have "sort_key updated_at rows = [] \<longleftrightarrow> rows = []"
    using length_sort [of updated_at rows] by (metis length_0_conv)
  then have "rev (sort_key updated_at rows) = [] \<longleftrightarrow> rows = []" by simp
  then show ?thesis
    by (cases "rev (sort_key updated_at rows)") (simp_all add: first_by_updated_at_desc_def)
qed

lemma first_by_updated_at_desc_Some:
  assumes "first_by_updated_at_desc rows = Some conv"
  shows "conv \<in> set rows \<and> (\<forall>other\<in>set rows. updated_at other \<le> updated_at conv)"
proof -
  from assms obtain rest where "rev (sort_key updated_at rows) = conv # rest"
    by (auto simp add: first_by_updated_at_desc_def split: list.splits)
  then have sorted_rows: "sort_key updated_at rows = rev rest @ [conv]"
    by (metis rev.simps(2) rev_rev_ident)
  have "set rows = set (rev rest @ [conv])"
    using sorted_rows set_sort [of updated_at rows] by simp
  moreover have "sorted (map updated_at (rev rest @ [conv]))"
    using sorted_rows sorted_sort_key [of updated_at rows] by simp
  then have "\<forall>other\<in>set (rev rest). updated_at other \<le> updated_at conv"
    by (simp add: sorted_append)
  ultimately show ?thesis by auto
qed

section \<open>Status updates and the cached context\<close>

text \<open>
  After the invalidation the snapshot cannot be read: on the in-process backend the
  key is deleted; on Redis it is deleted when the server answered the delete, and
  otherwise the read misses as long as the server does not answer.
\<close>

lemma get_conversation_after_update:
  assumes "\<not> use_redis c \<or> redis_up (redis c) \<or> \<not> up"
  shows "get_conversation
           ((invalidate_conversation c cid)
              \<lparr>redis := (redis (invalidate_conversation c cid))\<lparr>redis_up := up\<rparr>\<rparr>)
           cid now = None"
  using assms
  by (auto simp add: get_conversation_def invalidate_conversation_def redis_get_def Let_def)

text \<open>
  Claim C5, as amended. For a conversation id present in the store, after
  \<open>update_conversation_status\<close> has completed, a later \<open>get_conversation_context\<close>
  returns the context computed from the row the store now holds, whose status is the new
  status, provided the invalidation reached the cache or the read misses the cache: the
  backend is the in-process one, or the Redis server answered during the update, or it
  does not answer at the read (\<open>up\<close> is whether it answers then).
\<close>

theorem status_update_invalidates_context:
  assumes upd: "update_conversation_status w e cid new_status agent = (Inr (), w1)"
    and present: "cid \<in> set (map conversation_id (conversations (db w)))"
    and invalidated: "\<not> use_redis (cache w) \<or> redis_up (redis (cache w)) \<or> \<not> up"
    and no_fault: "fails_at e2 = None"
  shows "\<exists>conv. find (\<lambda>c. conversation_id c = cid) (conversations (db w1)) = Some conv
           \<and> status conv = new_status
           \<and> fst (get_conversation_context (set_redis_up up w1) e2 cid)
               = Inr (Some (context_of conv))
           \<and> s_status (context_of conv) = new_status"
proof -
  from present obtain conv0 where conv0:
    "find (\<lambda>c. conversation_id c = cid) (conversations (db w)) = Some conv0"
    using find_present by blast
  define conv1 where "conv1 = conv0\<lparr>status := new_status, updated_at := clock e\<rparr>"
  define conv2 where "conv2 =
    (if new_status = ''resolved'' then conv1\<lparr>resolved_at := Some (clock e)\<rparr> else conv1)"
  define conv3 where "conv3 =
    (if new_status = ''escalated'' then conv2\<lparr>escalated := True, human_agent_id := agent\<rparr> else conv2)"
  have id3: "conversation_id conv3 = cid" and st3: "status conv3 = new_status"
    using find_conversation_id [OF conv0] by (simp_all add: conv1_def conv2_def conv3_def)
  have body: "update_conversation_status_body e cid new_status agent (SessionLocal (db w)) (cache w)
      = (if fails_at e = Some 0 then (Inl OperationalError, cache w)
         else (Inr ((), update_row ((SessionLocal (db w))\<lparr>round_trips := 1\<rparr>) conv3),
               invalidate_conversation (cache w) cid))"
    using conv0
    by (simp add: update_conversation_status_body_def query_conversation_def round_trip_def
        SessionLocal_def Let_def conv1_def conv2_def conv3_def)
  from upd body have cache1: "cache w1 = invalidate_conversation (cache w) cid"
    and db1: "commit e (update_row ((SessionLocal (db w))\<lparr>round_trips := 1\<rparr>) conv3) = Inr (db w1)"
    by (auto simp add: update_conversation_status_def get_session_def split: if_splits sum.splits prod.splits)
  from commit_keeps [OF db1] id3 have rows1: "conversations (db w1) =
      map (\<lambda>r. if conversation_id r = cid then conv3 else r) (conversations (db w))"
    by (simp add: update_row_def SessionLocal_def)
  have found: "find (\<lambda>c. conversation_id c = cid) (conversations (db w1)) = Some conv3"
    unfolding rows1 using conv0 id3 by (rule find_update_row)
  have miss: "get_conversation (cache (set_redis_up up w1)) cid (clock e2) = None"
    using get_conversation_after_update [OF invalidated, of cid "clock e2"]
    by (simp add: set_redis_up_def cache1)
  have same_db: "db (set_redis_up up w1) = db w1"
    by (simp add: set_redis_up_def)
  have "fst (get_conversation_context (set_redis_up up w1) e2 cid) = Inr (Some (context_of conv3))"
    using miss found no_fault same_db
    by (simp add: get_conversation_context_def get_session_def get_conversation_context_body_def
        query_conversation_def round_trip_def SessionLocal_def commit_def)
  with found st3 show ?thesis by (auto simp add: context_of_def)
qed

text \<open>
  The theorem on a warm Redis cache. The cache holds the snapshot of \<open>c1\<close> with status
  open; \<open>c1\<close> is resolved while the server answers; the next read returns the
  resolved context.
\<close>

theorem status_update_invalidates_context_witness:
  "map_option s_status (get_conversation (cache (world_c1_warm True)) ''c1'' 5000) = Some ''open''
   \<and> fst (update_conversation_status (world_c1_warm True) (env_at 5000 ''u'' None)
            ''c1'' ''resolved'' None) = Inr ()
   \<and> (\<exists>conv. find (\<lambda>c. conversation_id c = ''c1'')
                 (conversations (db (snd (update_conversation_status (world_c1_warm True)
                     (env_at 5000 ''u'' None) ''c1'' ''resolved'' None)))) = Some conv
        \<and> status conv = ''resolved''
        \<and> fst (get_conversation_context
                 (set_redis_up True
                    (snd (update_conversation_status (world_c1_warm True)
                            (env_at 5000 ''u'' None) ''c1'' ''resolved'' None)))
                 (env_at 6000 ''v'' None) ''c1'') = Inr (Some (context_of conv))
        \<and> s_status (context_of conv) = ''resolved'')"
proof -
  let ?r = "update_conversation_status (world_c1_warm True) (env_at 5000 ''u'' None)
              ''c1'' ''resolved'' None"
  have warm: "map_option s_status (get_conversation (cache (world_c1_warm True)) ''c1'' 5000)
      = Some ''open''"
    by code_simp
  have ok: "fst ?r = Inr ()" by code_simp
  then have run: "?r = (Inr (), snd ?r)" by (metis prod.collapse)
  have present: "''c1'' \<in> set (map conversation_id (conversations (db (world_c1_warm True))))"
    by code_simp
  have answered: "\<not> use_redis (cache (world_c1_warm True))
      \<or> redis_up (redis (cache (world_c1_warm True))) \<or> \<not> True"
    by code_simp
  have no_fault: "fails_at (env_at 6000 ''v'' None) = None"
    by (simp add: env_at_def)
  from status_update_invalidates_context [OF run present answered no_fault] warm ok
  show ?thesis by blast
qed

text \<open>
  Claim C5 as stated fails when the delete is lost. The cache is the warm Redis cache;
  the server does not answer while \<open>c1\<close> is resolved, so the failed delete is swallowed
  and the update completes; the store holds the resolved row. Once the server answers
  again, the read returns the cached snapshot with status open.
\<close>

theorem stale_context_after_lost_delete_counterexample:
  "fst (update_conversation_status (set_redis_up False (world_c1_warm True))
          (env_at 5000 ''u'' None) ''c1'' ''resolved'' None) = Inr ()
   \<and> map status
        (conversations (db (snd (update_conversation_status
                                   (set_redis_up False (world_c1_warm True))
                                   (env_at 5000 ''u'' None) ''c1'' ''resolved'' None))))
     = [''resolved'']
   \<and> (case fst (get_conversation_context
                  (set_redis_up True
                     (snd (update_conversation_status
                             (set_redis_up False (world_c1_warm True))
                             (env_at 5000 ''u'' None) ''c1'' ''resolved'' None)))
                  (env_at 6000 ''v'' None) ''c1'') of
         Inr (Some snap) \<Rightarrow> s_status snap = ''open''
       | _ \<Rightarrow> False)"
  by code_simp

section \<open>Atomicity of add_interaction\<close>

lemma add_interaction_body_ok:
  assumes "add_interaction_body e cid user_message agent_response md s c = (Inr ((), s1), c1)"
  shows "\<exists>um am conv conv1.
           messages (txn s1) = messages (txn s) @ [um, am]
           \<and> msg_conversation_id um = cid \<and> msg_role um = ''user'' \<and> msg_content um = user_message
           \<and> msg_conversation_id am = cid \<and> msg_role am = ''assistant''
           \<and> msg_content am = agent_response
           \<and> find (\<lambda>r. conversation_id r = cid) (conversations (txn s)) = Some conv
           \<and> conversations (txn s1) =
               map (\<lambda>r. if conversation_id r = cid then conv1 else r) (conversations (txn s))
           \<and> conversation_id conv1 = cid
           \<and> message_count conv1 = message_count conv + 2
           \<and> updated_at conv1 = clock e"
proof -
  obtain r1 c2 where a1: "internal_add_message e s c cid ''user'' user_message None = (r1, c2)"
    by (cases "internal_add_message e s c cid ''user'' user_message None")
  with assms obtain um s2 where r1: "r1 = Inr (um, s2)"
    by (auto simp add: add_interaction_body_def split: sum.splits prod.splits)
  obtain r2 c3 where a2: "internal_add_message e s2 c2 cid ''assistant'' agent_response md = (r2, c3)"
    by (cases "internal_add_message e s2 c2 cid ''assistant'' agent_response md")
  with assms a1 r1 obtain am s3 where r2: "r2 = Inr (am, s3)"
    by (auto simp add: add_interaction_body_def split: sum.splits prod.splits)
  from internal_add_message_result [OF a1] r1 have u:
    "txn s2 = (txn s)\<lparr>messages := messages (txn s) @ [um]\<rparr>"
    "msg_conversation_id um = cid" "msg_role um = ''user''" "msg_content um = user_message"
    "cid \<in> set (map conversation_id (conversations (txn s)))"
    by simp_all
  from internal_add_message_result [OF a2] r2 have a:
    "txn s3 = (txn s2)\<lparr>messages := messages (txn s2) @ [am]\<rparr>"
    "msg_conversation_id am = cid" "msg_role am = ''assistant''" "msg_content am = agent_response"
    by simp_all
  from u(5) obtain conv where conv: "find (\<lambda>r. conversation_id r = cid) (conversations (txn s)) = Some conv"
    using find_present by blast
  have rows3: "conversations (txn s3) = conversations (txn s)" and
    msgs3: "messages (txn s3) = messages (txn s) @ [um, am]"
    using u(1) a(1) by simp_all
  define conv1 where "conv1 = conv\<lparr>message_count := message_count conv + 2, updated_at := clock e\<rparr>"
  define conv2 where "conv2 = (case Option.bind md md_classification of
                                  None \<Rightarrow> conv1
                                | Some cl \<Rightarrow> record_classification conv1 cl (clock e))"
  define row2 where "row2 = written_row conv conv2"
  have row2: "conversation_id row2 = cid" "message_count row2 = message_count conv + 2"
    "updated_at row2 = clock e"
    using find_conversation_id [OF conv]
    by (simp_all add: row2_def conv2_def conv1_def written_row_keeps record_classification_keeps
        split: option.splits)
  from assms a1 r1 a2 r2 conv rows3 have
    "txn s1 = txn (update_row (s3\<lparr>round_trips := Suc (round_trips s3)\<rparr>) row2)"
    by (auto simp add: add_interaction_body_def query_conversation_def round_trip_def Let_def
        row2_def conv2_def conv1_def internal_track_kb_usage_txn
        split: sum.splits prod.splits if_splits option.splits)
  then have "messages (txn s1) = messages (txn s) @ [um, am]"
    and "conversations (txn s1) =
         map (\<lambda>r. if conversation_id r = cid then row2 else r) (conversations (txn s))"
    using msgs3 rows3 row2(1) by (simp_all add: update_row_def)
  with u a conv row2 show ?thesis by blast
qed

text \<open>
  Claim C3. \<open>add_interaction\<close> is atomic on the store. When it raises, at whatever
  step, the store is left as it was. When it returns, the user message row, the assistant
  message row and the updated conversation row (two more messages counted, the update
  time set) are committed together.
\<close>

theorem add_interaction_atomic:
  assumes run: "add_interaction w e cid user_message agent_response md = (r, w1)"
  shows "(\<forall>err. r = Inl err \<longrightarrow> db w1 = db w)
       \<and> (r = Inr () \<longrightarrow>
            (\<exists>um am conv conv1.
               messages (db w1) = messages (db w) @ [um, am]
               \<and> msg_conversation_id um = cid \<and> msg_role um = ''user''
               \<and> msg_content um = user_message
               \<and> msg_conversation_id am = cid \<and> msg_role am = ''assistant''
               \<and> msg_content am = agent_response
               \<and> find (\<lambda>c. conversation_id c = cid) (conversations (db w)) = Some conv
               \<and> find (\<lambda>c. conversation_id c = cid) (conversations (db w1)) = Some conv1
               \<and> message_count conv1 = message_count conv + 2
               \<and> updated_at conv1 = clock e))"
proof (intro conjI allI impI)
  fix err assume "r = Inl err"
  with run show "db w1 = db w"
    by (auto simp add: add_interaction_def get_session_def split: prod.splits sum.splits)
next
  assume ok: "r = Inr ()"
  with run obtain s1 c1 where
    body: "add_interaction_body e cid user_message agent_response md (SessionLocal (db w)) (cache w)
             = (Inr ((), s1), c1)"
    and com: "commit e s1 = Inr (db w1)"
    by (auto simp add: add_interaction_def get_session_def split: prod.splits sum.splits)
  from add_interaction_body_ok [OF body] obtain um am conv conv1 where b:
    "messages (txn s1) = messages (db w) @ [um, am]"
    "msg_conversation_id um = cid" "msg_role um = ''user''" "msg_content um = user_message"
    "msg_conversation_id am = cid" "msg_role am = ''assistant''" "msg_content am = agent_response"
    "find (\<lambda>r. conversation_id r = cid) (conversations (db w)) = Some conv"
    "conversations (txn s1) =
       map (\<lambda>r. if conversation_id r = cid then conv1 else r) (conversations (db w))"
    "conversation_id conv1 = cid" "message_count conv1 = message_count conv + 2"
    "updated_at conv1 = clock e"
    by (auto simp add: SessionLocal_def)
  from commit_keeps [OF com] b(1,9) have
    "messages (db w1) = messages (db w) @ [um, am]"
    "conversations (db w1) =
       map (\<lambda>r. if conversation_id r = cid then conv1 else r) (conversations (db w))"
    by simp_all
  moreover from this(2) find_update_row [OF b(8) b(10)]
  have "find (\<lambda>c. conversation_id c = cid) (conversations (db w1)) = Some conv1" by simp
  ultimately show "\<exists>um am conv conv1.
               messages (db w1) = messages (db w) @ [um, am]
               \<and> msg_conversation_id um = cid \<and> msg_role um = ''user''
               \<and> msg_content um = user_message
               \<and> msg_conversation_id am = cid \<and> msg_role am = ''assistant''
               \<and> msg_content am = agent_response
               \<and> find (\<lambda>c. conversation_id c = cid) (conversations (db w)) = Some conv
               \<and> find (\<lambda>c. conversation_id c = cid) (conversations (db w1)) = Some conv1
               \<and> message_count conv1 = message_count conv + 2
               \<and> updated_at conv1 = clock e"
    using b by blast
qed

text \<open>
  Both outcomes at concrete inputs: the store failing at the flush of the assistant
  message, and no failure.
\<close>

theorem add_interaction_atomic_witness:
  "fst (add_interaction world_c1 (env_at 2000 ''n'' (Some 1)) ''c1'' ''again'' ''reply'' None)
     = Inl OperationalError
   \<and> db (snd (add_interaction world_c1 (env_at 2000 ''n'' (Some 1)) ''c1'' ''again'' ''reply'' None))
     = db world_c1
   \<and> fst (add_interaction world_c1 (env_at 2000 ''n'' None) ''c1'' ''again'' ''reply'' None) = Inr ()
   \<and> (\<exists>um am conv conv1.
         messages (db (snd (add_interaction world_c1 (env_at 2000 ''n'' None) ''c1'' ''again'' ''reply'' None)))
           = messages (db world_c1) @ [um, am]
         \<and> msg_role um = ''user'' \<and> msg_content um = ''again''
         \<and> msg_role am = ''assistant'' \<and> msg_content am = ''reply''
         \<and> find (\<lambda>c. conversation_id c = ''c1'') (conversations (db world_c1)) = Some conv
         \<and> find (\<lambda>c. conversation_id c = ''c1'')
              (conversations (db (snd (add_interaction world_c1 (env_at 2000 ''n'' None) ''c1'' ''again'' ''reply'' None))))
             = Some conv1
         \<and> message_count conv1 = message_count conv + 2
         \<and> updated_at conv1 = 2000)"
proof -
  let ?bad = "add_interaction world_c1 (env_at 2000 ''n'' (Some 1)) ''c1'' ''again'' ''reply'' None"
  let ?good = "add_interaction world_c1 (env_at 2000 ''n'' None) ''c1'' ''again'' ''reply'' None"
  have bad: "fst ?bad = Inl OperationalError" by code_simp
  then have "?bad = (Inl OperationalError, snd ?bad)" by (metis prod.collapse)
  from add_interaction_atomic [OF this] have rolled_back: "db (snd ?bad) = db world_c1" by blast
  have good: "fst ?good = Inr ()" by code_simp
  then have "?good = (Inr (), snd ?good)" by (metis prod.collapse)
  from add_interaction_atomic [OF this] have
    "\<exists>um am conv conv1.
         messages (db (snd ?good)) = messages (db world_c1) @ [um, am]
         \<and> msg_conversation_id um = ''c1'' \<and> msg_role um = ''user'' \<and> msg_content um = ''again''
         \<and> msg_conversation_id am = ''c1'' \<and> msg_role am = ''assistant'' \<and> msg_content am = ''reply''
         \<and> find (\<lambda>c. conversation_id c = ''c1'') (conversations (db world_c1)) = Some conv
         \<and> find (\<lambda>c. conversation_id c = ''c1'') (conversations (db (snd ?good))) = Some conv1
         \<and> message_count conv1 = message_count conv + 2
         \<and> updated_at conv1 = clock (env_at 2000 ''n'' None)"
    by blast
  then have committed: "\<exists>um am conv conv1.
         messages (db (snd ?good)) = messages (db world_c1) @ [um, am]
         \<and> msg_role um = ''user'' \<and> msg_content um = ''again''
         \<and> msg_role am = ''assistant'' \<and> msg_content am = ''reply''
         \<and> find (\<lambda>c. conversation_id c = ''c1'') (conversations (db world_c1)) = Some conv
         \<and> find (\<lambda>c. conversation_id c = ''c1'') (conversations (db (snd ?good))) = Some conv1
         \<and> message_count conv1 = message_count conv + 2
         \<and> updated_at conv1 = 2000"
    by (simp add: env_at_def) blast
  from bad rolled_back good committed show ?thesis by blast
qed

section \<open>The continuity resolver\<close>

text \<open>
  Claim C4. With no store failure, \<open>start_or_get_conversation\<close> either continues or
  creates. If the customer has a conversation that is open or in progress and was updated
  within the last 4 hours, the call returns the id of such a conversation whose
  \<open>updated_at\<close> is the latest among them, and no conversation is created. Otherwise it
  adds exactly one conversation, with status open and the supplied customer context (the
  empty dict when none is supplied), and exactly one message, with role user and the
  initial message as content, and returns the new id. The identifiers drawn must not be
  in use, as is the case for fresh \<open>uuid4\<close> values.
\<close>

theorem start_or_get_conversation_continues_or_creates:
  assumes run: "start_or_get_conversation w e cust initial_message ctx = (r, w1)"
    and no_fault: "fails_at e = None"
  shows "((\<exists>conv\<in>set (conversations (db w)). active_recent cust (clock e) conv)
            \<and> uuid4 e 0 \<notin> set (map msg_id (messages (db w))) \<longrightarrow>
          (\<exists>conv\<in>set (conversations (db w)).
              active_recent cust (clock e) conv
              \<and> (\<forall>other\<in>set (conversations (db w)).
                    active_recent cust (clock e) other \<longrightarrow> updated_at other \<le> updated_at conv)
              \<and> r = Inr (conversation_id conv)
              \<and> conversations (db w1) = conversations (db w)))
       \<and> ((\<forall>conv\<in>set (conversations (db w)). \<not> active_recent cust (clock e) conv)
            \<and> uuid4 e 0 \<notin> set (map conversation_id (conversations (db w)))
            \<and> uuid4 e 1 \<notin> set (map msg_id (messages (db w))) \<longrightarrow>
          (\<exists>conv m.
              r = Inr (conversation_id conv)
              \<and> conversation_id conv = uuid4 e 0
              \<and> conversations (db w1) = conversations (db w) @ [conv]
              \<and> customer_id conv = cust \<and> status conv = ''open''
              \<and> customer_context conv = (case ctx of None \<Rightarrow> [] | Some d \<Rightarrow> d)
              \<and> messages (db w1) = messages (db w) @ [m]
              \<and> msg_conversation_id m = conversation_id conv
              \<and> msg_role m = ''user'' \<and> msg_content m = initial_message))"
proof (intro conjI impI)
  let ?rows = "filter (active_recent cust (clock e)) (conversations (db w))"
  assume "(\<exists>conv\<in>set (conversations (db w)). active_recent cust (clock e) conv)
            \<and> uuid4 e 0 \<notin> set (map msg_id (messages (db w)))"
  then have nonempty: "?rows \<noteq> []" and fresh: "uuid4 e 0 \<notin> set (map msg_id (messages (db w)))"
    by (auto simp add: filter_empty_conv)
  then obtain conv where first: "first_by_updated_at_desc ?rows = Some conv"
    using first_by_updated_at_desc_None [of ?rows] by (cases "first_by_updated_at_desc ?rows") auto
  from first_by_updated_at_desc_Some [OF first] have
    conv: "conv \<in> set (conversations (db w))" "active_recent cust (clock e) conv"
    and latest: "\<forall>other\<in>set (conversations (db w)).
                    active_recent cust (clock e) other \<longrightarrow> updated_at other \<le> updated_at conv"
    by auto
  from conv(1) have fk: "conversation_id conv \<in> set (map conversation_id (conversations (db w)))"
    by simp
  from run first fresh fk no_fault have "r = Inr (conversation_id conv)"
    and "conversations (db w1) = conversations (db w)"
    by (auto simp add: start_or_get_conversation_def get_session_def
        start_or_get_conversation_body_def query_recent_conversation_def round_trip_def
        SessionLocal_def internal_add_message_def next_uuid_def flush_message_def commit_def
        Let_def split: prod.splits sum.splits if_splits)
  with conv latest show "\<exists>conv\<in>set (conversations (db w)).
              active_recent cust (clock e) conv
              \<and> (\<forall>other\<in>set (conversations (db w)).
                    active_recent cust (clock e) other \<longrightarrow> updated_at other \<le> updated_at conv)
              \<and> r = Inr (conversation_id conv)
              \<and> conversations (db w1) = conversations (db w)"
    by blast
next
  let ?rows = "filter (active_recent cust (clock e)) (conversations (db w))"
  let ?conv = "new_conversation_row (uuid4 e 0) cust ctx (clock e)"
  assume "(\<forall>conv\<in>set (conversations (db w)). \<not> active_recent cust (clock e) conv)
            \<and> uuid4 e 0 \<notin> set (map conversation_id (conversations (db w)))
            \<and> uuid4 e 1 \<notin> set (map msg_id (messages (db w)))"
  then have none: "first_by_updated_at_desc ?rows = None"
    and fresh: "uuid4 e 0 \<notin> set (map conversation_id (conversations (db w)))"
      "uuid4 e 1 \<notin> set (map msg_id (messages (db w)))"
    by (auto simp add: first_by_updated_at_desc_None filter_empty_conv)
  from run none fresh no_fault have "r = Inr (uuid4 e 0)"
    and "conversations (db w1) = conversations (db w) @ [?conv]"
    and "\<exists>m. messages (db w1) = messages (db w) @ [m] \<and> msg_conversation_id m = uuid4 e 0
           \<and> msg_role m = ''user'' \<and> msg_content m = initial_message"
    by (auto simp add: start_or_get_conversation_def get_session_def
        start_or_get_conversation_body_def query_recent_conversation_def round_trip_def
        SessionLocal_def internal_add_message_def next_uuid_def flush_message_def
        flush_conversation_def commit_def new_conversation_row_def
        Let_def split: prod.splits sum.splits if_splits)
  then show "\<exists>conv m.
              r = Inr (conversation_id conv)
              \<and> conversation_id conv = uuid4 e 0
              \<and> conversations (db w1) = conversations (db w) @ [conv]
              \<and> customer_id conv = cust \<and> status conv = ''open''
              \<and> customer_context conv = (case ctx of None \<Rightarrow> [] | Some d \<Rightarrow> d)
              \<and> messages (db w1) = messages (db w) @ [m]
              \<and> msg_conversation_id m = conversation_id conv
              \<and> msg_role m = ''user'' \<and> msg_content m = initial_message"
    by (auto simp add: new_conversation_row_def)
qed

text \<open>
  Both branches at concrete inputs: a second message of customer \<open>cust\<close> 1000
  microseconds after the first, and a first message on an empty store.
\<close>

theorem start_or_get_conversation_continues_or_creates_witness:
  "fst (start_or_get_conversation world_c1 (env_at 2000 ''m2'' None) ''cust'' ''again'' None)
     = Inr ''c1''
   \<and> conversations (db (snd (start_or_get_conversation world_c1 (env_at 2000 ''m2'' None)
                              ''cust'' ''again'' None))) = conversations (db world_c1)
   \<and> fst (start_or_get_conversation (empty_world False) (env_at 1000 ''c1'' None)
            ''cust'' ''hello'' None) = Inr ''c1''
   \<and> (\<exists>conv m.
         conversations (db (snd (start_or_get_conversation (empty_world False)
                                   (env_at 1000 ''c1'' None) ''cust'' ''hello'' None))) = [conv]
         \<and> customer_id conv = ''cust'' \<and> status conv = ''open'' \<and> customer_context conv = []
         \<and> messages (db (snd (start_or_get_conversation (empty_world False)
                                   (env_at 1000 ''c1'' None) ''cust'' ''hello'' None))) = [m]
         \<and> msg_conversation_id m = ''c1'' \<and> msg_role m = ''user'' \<and> msg_content m = ''hello'')"
proof -
  let ?e1 = "env_at 2000 ''m2'' None"
  let ?e2 = "env_at 1000 ''c1'' None"
  let ?continue = "start_or_get_conversation world_c1 ?e1 ''cust'' ''again'' None"
  let ?create = "start_or_get_conversation (empty_world False) ?e2 ''cust'' ''hello'' None"
  have run1: "?continue = (fst ?continue, snd ?continue)" by simp
  have nf1: "fails_at ?e1 = None" by (simp add: env_at_def)
  have active: "(\<exists>conv\<in>set (conversations (db world_c1)). active_recent ''cust'' (clock ?e1) conv)
      \<and> uuid4 ?e1 0 \<notin> set (map msg_id (messages (db world_c1)))"
    by (simp add: world_c1_def db_c1_def conv_c1_def msg_m1_def new_conversation_row_def
        active_recent_def env_at_def uuid_seq_def hours_def)
  from start_or_get_conversation_continues_or_creates [OF run1 nf1] active
  have "\<exists>conv\<in>set (conversations (db world_c1)).
          fst ?continue = Inr (conversation_id conv)
          \<and> conversations (db (snd ?continue)) = conversations (db world_c1)"
    by blast
  then have continued: "fst ?continue = Inr ''c1''"
    "conversations (db (snd ?continue)) = conversations (db world_c1)"
    by (simp_all add: world_c1_def db_c1_def conv_c1_def new_conversation_row_def)
  have run2: "?create = (fst ?create, snd ?create)" by simp
  have nf2: "fails_at ?e2 = None" by (simp add: env_at_def)
  have fresh: "(\<forall>conv\<in>set (conversations (db (empty_world False))).
                  \<not> active_recent ''cust'' (clock ?e2) conv)
      \<and> uuid4 ?e2 0 \<notin> set (map conversation_id (conversations (db (empty_world False))))
      \<and> uuid4 ?e2 1 \<notin> set (map msg_id (messages (db (empty_world False))))"
    by (simp add: empty_world_def empty_db_def)
  from start_or_get_conversation_continues_or_creates [OF run2 nf2] fresh
  have "\<exists>conv m.
          fst ?create = Inr (conversation_id conv)
          \<and> conversation_id conv = uuid4 ?e2 0
          \<and> conversations (db (snd ?create)) = conversations (db (empty_world False)) @ [conv]
          \<and> customer_id conv = ''cust'' \<and> status conv = ''open''
          \<and> customer_context conv = (case None of None \<Rightarrow> [] | Some d \<Rightarrow> d)
          \<and> messages (db (snd ?create)) = messages (db (empty_world False)) @ [m]
          \<and> msg_conversation_id m = conversation_id conv
          \<and> msg_role m = ''user'' \<and> msg_content m = ''hello''"
    by blast
  then obtain conv m where created:
    "fst ?create = Inr (conversation_id conv)" "conversation_id conv = ''c1''"
    "conversations (db (snd ?create)) = [conv]"
    "customer_id conv = ''cust''" "status conv = ''open''" "customer_context conv = []"
    "messages (db (snd ?create)) = [m]" "msg_conversation_id m = ''c1''"
    "msg_role m = ''user''" "msg_content m = ''hello''"
    by (auto simp add: empty_world_def empty_db_def env_at_def uuid_seq_def)
  from continued created show ?thesis by auto
qed

section \<open>Conversations that do not exist\<close>

text \<open>
  Claim C9, as amended. For a conversation id that is not in the store and with no
  store failure, \<open>get_conversation_context\<close> returns the absent value when the cache
  holds no live snapshot under that id, and \<open>update_conversation_status\<close> returns
  normally, with no error and no not-found value; both leave the store and the cache as
  they were.
\<close>

theorem missing_conversation_not_signalled:
  assumes missing: "cid \<notin> set (map conversation_id (conversations (db w)))"
    and no_fault: "fails_at e = None"
  shows "(get_conversation (cache w) cid (clock e) = None \<longrightarrow>
            get_conversation_context w e cid = (Inr None, w))
       \<and> update_conversation_status w e cid new_status agent = (Inr (), w)"
  using find_absent [OF missing] no_fault
  by (simp add: get_conversation_context_def get_conversation_context_body_def
      update_conversation_status_def update_conversation_status_body_def
      get_session_def query_conversation_def round_trip_def SessionLocal_def commit_def)

text \<open>
  The theorem for the id \<open>nope\<close>, which the store of the scenario does not hold.
\<close>

theorem missing_conversation_not_signalled_witness:
  "get_conversation_context world_c1 (env_at 2000 ''n'' None) ''nope'' = (Inr None, world_c1)
   \<and> update_conversation_status world_c1 (env_at 2000 ''n'' None) ''nope'' ''resolved'' None
       = (Inr (), world_c1)"
proof -
  have missing: "''nope'' \<notin> set (map conversation_id (conversations (db world_c1)))"
    by (simp add: world_c1_def db_c1_def conv_c1_def new_conversation_row_def)
  have no_fault: "fails_at (env_at 2000 ''n'' None) = None" by (simp add: env_at_def)
  have miss: "get_conversation (cache world_c1) ''nope'' (clock (env_at 2000 ''n'' None)) = None"
    by (simp add: world_c1_def new_cache_def get_conversation_def)
  from missing_conversation_not_signalled [OF missing no_fault] miss show ?thesis by blast
qed

text \<open>
  Claim C9 as stated fails in both halves. For the missing id \<open>nope\<close>,
  \<open>update_conversation_status\<close> returns the value it returns for the existing id
  \<open>c1\<close> and changes nothing, so the caller gets no sign that the conversation was not
  found. And after the creation of a conversation was rolled back at the commit, the
  store holds no conversation, yet \<open>get_conversation_context\<close> returns the snapshot that
  the aborted call has left in the cache under the new id.
\<close>

theorem update_status_not_found_counterexample:
  "fst (update_conversation_status world_c1 (env_at 2000 ''n'' None) ''nope'' ''resolved'' None)
     = Inr ()
   \<and> db (snd (update_conversation_status world_c1 (env_at 2000 ''n'' None) ''nope''
                 ''resolved'' None)) = db world_c1
   \<and> fst (update_conversation_status world_c1 (env_at 2000 ''n'' None) ''c1'' ''resolved'' None)
     = Inr ()
   \<and> fst (start_or_get_conversation (empty_world False) (env_at 1000 ''c1'' (Some 3))
            ''cust'' ''hello'' None) = Inl OperationalError
   \<and> conversations (db (snd (start_or_get_conversation (empty_world False)
                               (env_at 1000 ''c1'' (Some 3)) ''cust'' ''hello'' None))) = []
   \<and> (case fst (get_conversation_context
                  (snd (start_or_get_conversation (empty_world False)
                          (env_at 1000 ''c1'' (Some 3)) ''cust'' ''hello'' None))
                  (env_at 2000 ''q'' None) ''c1'') of
         Inr (Some snap) \<Rightarrow> s_conversation_id snap = ''c1'' \<and> s_status snap = ''open''
       | _ \<Rightarrow> False)"
  by code_simp

section \<open>Cache writes and the transaction\<close>

lemma add_interaction_body_steps:
  assumes start: "round_trips s = 0" "uuids_drawn s = 0"
    and present: "find (\<lambda>r. conversation_id r = cid) (conversations (txn s)) = Some conv"
    and fresh: "uuid4 e 0 \<notin> set (map msg_id (messages (txn s)))"
      "uuid4 e 1 \<notin> set (map msg_id (messages (txn s)))" "uuid4 e 0 \<noteq> uuid4 e 1"
  shows "fails_at e = Some 0 \<Longrightarrow>
           add_interaction_body e cid user_message agent_response md s c
             = (Inl OperationalError, c)"
    and "fails_at e = Some 1 \<Longrightarrow>
           add_interaction_body e cid user_message agent_response md s c
             = (Inl OperationalError,
                add_message c cid (message_dict e ''user'' user_message None) (clock e))"
    and "fails_at e = Some 2 \<Longrightarrow>
           add_interaction_body e cid user_message agent_response md s c
             = (Inl OperationalError,
                add_message
                  (add_message c cid (message_dict e ''user'' user_message None) (clock e))
                  cid (message_dict e ''assistant'' agent_response md) (clock e))"
    and "fails_at e = Some 3 \<Longrightarrow>
           \<exists>s3 conv1. add_interaction_body e cid user_message agent_response md s c
             = (Inr ((), s3),
                internal_cache_conversation
                  (add_message
                     (add_message c cid (message_dict e ''user'' user_message None) (clock e))
                     cid (message_dict e ''assistant'' agent_response md) (clock e))
                  conv1 (clock e))
             \<and> message_count conv1 = message_count conv + 2 \<and> round_trips s3 = 3"
proof -
  let ?U = "message_dict e ''user'' user_message None"
  let ?A = "message_dict e ''assistant'' agent_response md"
  let ?c1 = "add_message c cid ?U (clock e)"
  let ?c2 = "add_message ?c1 cid ?A (clock e)"
  from present have fk: "cid \<in> set (map conversation_id (conversations (txn s)))"
    by (rule find_conversation_present)
  show "fails_at e = Some 0 \<Longrightarrow>
           add_interaction_body e cid user_message agent_response md s c
             = (Inl OperationalError, c)"
    using internal_add_message_fault [of e s] start
    by (simp add: add_interaction_body_def)
  have first: "\<exists>um s1.
      internal_add_message e s c cid ''user'' user_message None = (Inr (um, s1), ?c1)
      \<and> txn s1 = (txn s)\<lparr>messages := messages (txn s) @ [um]\<rparr>
      \<and> msg_id um = uuid4 e 0 \<and> round_trips s1 = 1 \<and> uuids_drawn s1 = 1"
    if "fails_at e \<noteq> Some 0"
    using internal_add_message_ok [of e s cid c "''user''" user_message None] that start fresh(1) fk
    by auto
  show "fails_at e = Some 1 \<Longrightarrow>
           add_interaction_body e cid user_message agent_response md s c
             = (Inl OperationalError, ?c1)"
  proof -
    assume f: "fails_at e = Some 1"
    then obtain um s1 where u:
      "internal_add_message e s c cid ''user'' user_message None = (Inr (um, s1), ?c1)"
      "round_trips s1 = 1"
      using first by auto
    with f internal_add_message_fault [of e s1] show ?thesis
      by (simp add: add_interaction_body_def)
  qed
  have second: "\<exists>um s1 am s2.
      internal_add_message e s c cid ''user'' user_message None = (Inr (um, s1), ?c1)
      \<and> internal_add_message e s1 ?c1 cid ''assistant'' agent_response md = (Inr (am, s2), ?c2)
      \<and> conversations (txn s2) = conversations (txn s)
      \<and> round_trips s2 = 2"
    if "fails_at e \<noteq> Some 0" "fails_at e \<noteq> Some 1"
  proof -
    from first [OF that(1)] obtain um s1 where u:
      "internal_add_message e s c cid ''user'' user_message None = (Inr (um, s1), ?c1)"
      "txn s1 = (txn s)\<lparr>messages := messages (txn s) @ [um]\<rparr>"
      "msg_id um = uuid4 e 0" "round_trips s1 = 1" "uuids_drawn s1 = 1"
      by auto
    have "uuid4 e (uuids_drawn s1) \<notin> set (map msg_id (messages (txn s1)))"
      using u fresh by auto
    moreover have "cid \<in> set (map conversation_id (conversations (txn s1)))"
      using u fk by simp
    moreover have "fails_at e \<noteq> Some (round_trips s1)"
      using u that by simp
    ultimately obtain am s2 where
      "internal_add_message e s1 ?c1 cid ''assistant'' agent_response md = (Inr (am, s2), ?c2)"
      "txn s2 = (txn s1)\<lparr>messages := messages (txn s1) @ [am]\<rparr>"
      "round_trips s2 = Suc (round_trips s1)"
      using internal_add_message_ok [of e s1 cid ?c1 "''assistant''" agent_response md]
      by auto
    with u show ?thesis by auto
  qed
  show "fails_at e = Some 2 \<Longrightarrow>
           add_interaction_body e cid user_message agent_response md s c
             = (Inl OperationalError, ?c2)"
  proof -
    assume f: "fails_at e = Some 2"
    with second obtain um s1 am s2 where
      "internal_add_message e s c cid ''user'' user_message None = (Inr (um, s1), ?c1)"
      "internal_add_message e s1 ?c1 cid ''assistant'' agent_response md = (Inr (am, s2), ?c2)"
      "round_trips s2 = 2"
      by auto
    with f show ?thesis
      by (simp add: add_interaction_body_def query_conversation_def round_trip_def)
  qed
  show "fails_at e = Some 3 \<Longrightarrow>
           \<exists>s3 conv1. add_interaction_body e cid user_message agent_response md s c
             = (Inr ((), s3), internal_cache_conversation ?c2 conv1 (clock e))
             \<and> message_count conv1 = message_count conv + 2 \<and> round_trips s3 = 3"
  proof -
    assume f: "fails_at e = Some 3"
    with second obtain um s1 am s2 where
      "internal_add_message e s c cid ''user'' user_message None = (Inr (um, s1), ?c1)"
      "internal_add_message e s1 ?c1 cid ''assistant'' agent_response md = (Inr (am, s2), ?c2)"
      "conversations (txn s2) = conversations (txn s)"
      "round_trips s2 = 2"
      by auto
    with f present show ?thesis
      by (auto simp add: add_interaction_body_def query_conversation_def round_trip_def Let_def
          update_row_def internal_track_kb_usage_round_trips record_classification_keeps
          split: option.splits)
  qed
qed

theorem add_interaction_cache_before_commit:
  assumes run: "add_interaction w e cid user_message agent_response md = (r, w1)"
    and present: "find (\<lambda>c. conversation_id c = cid) (conversations (db w)) = Some conv"
    and fresh: "uuid4 e 0 \<notin> set (map msg_id (messages (db w)))"
      "uuid4 e 1 \<notin> set (map msg_id (messages (db w)))" "uuid4 e 0 \<noteq> uuid4 e 1"
  shows "(fails_at e = Some 0 \<longrightarrow>
            r = Inl OperationalError \<and> db w1 = db w \<and> cache w1 = cache w)
       \<and> (fails_at e = Some 1 \<longrightarrow>
            r = Inl OperationalError \<and> db w1 = db w
            \<and> cache w1 = add_message (cache w) cid
                            (message_dict e ''user'' user_message None) (clock e))
       \<and> (fails_at e = Some 2 \<longrightarrow>
            r = Inl OperationalError \<and> db w1 = db w
            \<and> cache w1 = add_message
                            (add_message (cache w) cid
                               (message_dict e ''user'' user_message None) (clock e))
                            cid (message_dict e ''assistant'' agent_response md) (clock e))
       \<and> (fails_at e = Some 3 \<longrightarrow>
            r = Inl OperationalError \<and> db w1 = db w
            \<and> (\<exists>conv1. message_count conv1 = message_count conv + 2 \<and>
                 cache w1 = internal_cache_conversation
                            (add_message
                               (add_message (cache w) cid
                                  (message_dict e ''user'' user_message None) (clock e))
                               cid (message_dict e ''assistant'' agent_response md) (clock e))
                            conv1 (clock e)))"
proof -
  let ?s0 = "SessionLocal (db w)"
  have start: "round_trips ?s0 = 0" "uuids_drawn ?s0 = 0"
    and "find (\<lambda>r. conversation_id r = cid) (conversations (txn ?s0)) = Some conv"
    and "uuid4 e 0 \<notin> set (map msg_id (messages (txn ?s0)))"
    and "uuid4 e 1 \<notin> set (map msg_id (messages (txn ?s0)))"
    using present fresh by (simp_all add: SessionLocal_def)
  note steps = add_interaction_body_steps [OF this fresh(3),
      of user_message agent_response md "cache w"]
  show ?thesis
  proof (intro conjI impI)
    assume "fails_at e = Some 0"
    with steps(1) run show "r = Inl OperationalError" "db w1 = db w" "cache w1 = cache w"
      by (auto simp add: add_interaction_def get_session_def)
  next
    assume "fails_at e = Some 1"
    with steps(2) run show "r = Inl OperationalError" "db w1 = db w"
      "cache w1 = add_message (cache w) cid (message_dict e ''user'' user_message None) (clock e)"
      by (auto simp add: add_interaction_def get_session_def)
  next
    assume "fails_at e = Some 2"
    with steps(3) run show "r = Inl OperationalError" "db w1 = db w"
      "cache w1 = add_message
                    (add_message (cache w) cid
                       (message_dict e ''user'' user_message None) (clock e))
                    cid (message_dict e ''assistant'' agent_response md) (clock e)"
      by (auto simp add: add_interaction_def get_session_def)
  next
    assume f: "fails_at e = Some 3"
    with steps(4) obtain s3 conv1 where b:
      "add_interaction_body e cid user_message agent_response md ?s0 (cache w)
         = (Inr ((), s3),
            internal_cache_conversation
              (add_message
                 (add_message (cache w) cid (message_dict e ''user'' user_message None) (clock e))
                 cid (message_dict e ''assistant'' agent_response md) (clock e))
              conv1 (clock e))"
      "message_count conv1 = message_count conv + 2" "round_trips s3 = 3"
      by blast
    from f b(3) have "commit e s3 = Inl OperationalError"
      by (simp add: commit_def round_trip_def)
    with b run show "r = Inl OperationalError" "db w1 = db w"
      "\<exists>conv1. message_count conv1 = message_count conv + 2 \<and>
         cache w1 = internal_cache_conversation
                    (add_message
                       (add_message (cache w) cid
                          (message_dict e ''user'' user_message None) (clock e))
                       cid (message_dict e ''assistant'' agent_response md) (clock e))
                    conv1 (clock e)"
      by (auto simp add: add_interaction_def get_session_def)
  qed
qed

lemma start_or_get_conversation_create_steps:
  assumes run: "start_or_get_conversation w e cust initial_message ctx = (r, w1)"
    and none: "\<forall>conv\<in>set (conversations (db w)). \<not> active_recent cust (clock e) conv"
    and fresh: "uuid4 e 0 \<notin> set (map conversation_id (conversations (db w)))"
      "uuid4 e 1 \<notin> set (map msg_id (messages (db w)))"
  shows "(fails_at e = Some 0 \<or> fails_at e = Some 1 \<or> fails_at e = Some 2 \<longrightarrow>
            r = Inl OperationalError \<and> db w1 = db w \<and> cache w1 = cache w)
       \<and> (fails_at e = Some 3 \<longrightarrow>
            r = Inl OperationalError \<and> db w1 = db w
            \<and> cache w1 = internal_cache_conversation
                            (add_message (cache w) (uuid4 e 0)
                               (message_dict e ''user'' initial_message None) (clock e))
                            (new_conversation_row (uuid4 e 0) cust ctx (clock e)) (clock e))"
proof -
  have "first_by_updated_at_desc (filter (active_recent cust (clock e)) (conversations (db w))) = None"
    using none by (simp add: first_by_updated_at_desc_None filter_empty_conv)
  with run fresh show ?thesis
    by (auto simp add: start_or_get_conversation_def get_session_def
        start_or_get_conversation_body_def query_recent_conversation_def round_trip_def
        SessionLocal_def internal_add_message_def next_uuid_def flush_message_def
        flush_conversation_def commit_def new_conversation_row_def message_dict_def
        Let_def split: prod.splits sum.splits if_splits)
qed

lemma start_or_get_conversation_continue_steps:
  assumes run: "start_or_get_conversation w e cust initial_message ctx = (r, w1)"
    and some: "\<exists>conv\<in>set (conversations (db w)). active_recent cust (clock e) conv"
    and fresh: "uuid4 e 0 \<notin> set (map msg_id (messages (db w)))"
  shows "(fails_at e = Some 0 \<or> fails_at e = Some 1 \<longrightarrow>
            r = Inl OperationalError \<and> db w1 = db w \<and> cache w1 = cache w)
       \<and> (fails_at e = Some 2 \<longrightarrow>
            r = Inl OperationalError \<and> db w1 = db w
            \<and> (\<exists>conv\<in>set (conversations (db w)).
                  cache w1 = add_message (cache w) (conversation_id conv)
                               (message_dict e ''user'' initial_message None) (clock e)))"
proof -
  let ?rows = "filter (active_recent cust (clock e)) (conversations (db w))"
  from some have "?rows \<noteq> []" by (auto simp add: filter_empty_conv)
  then obtain conv where first: "first_by_updated_at_desc ?rows = Some conv"
    using first_by_updated_at_desc_None [of ?rows] by (cases "first_by_updated_at_desc ?rows") auto
  from first_by_updated_at_desc_Some [OF first] have conv: "conv \<in> set (conversations (db w))"
    by auto
  then have fk: "conversation_id conv \<in> set (map conversation_id (conversations (db w)))"
    by simp
  have early: "fails_at e = Some 0 \<or> fails_at e = Some 1 \<Longrightarrow>
      r = Inl OperationalError \<and> db w1 = db w \<and> cache w1 = cache w"
    using run first fresh fk
    by (auto simp add: start_or_get_conversation_def get_session_def
        start_or_get_conversation_body_def query_recent_conversation_def round_trip_def
        SessionLocal_def internal_add_message_def next_uuid_def flush_message_def commit_def
        Let_def split: prod.splits sum.splits if_splits)
  have late: "fails_at e = Some 2 \<Longrightarrow>
      r = Inl OperationalError \<and> db w1 = db w
      \<and> cache w1 = add_message (cache w) (conversation_id conv)
                               (message_dict e ''user'' initial_message None) (clock e)"
    using run first fresh fk
    by (auto simp add: start_or_get_conversation_def get_session_def
        start_or_get_conversation_body_def query_recent_conversation_def round_trip_def
        SessionLocal_def internal_add_message_def next_uuid_def flush_message_def commit_def
        message_dict_def Let_def split: prod.splits sum.splits if_splits)
  from early late conv show ?thesis by blast
qed

text \<open>
  Claim C2, as amended. In both write operations the cache is written before the commit
  and a rollback does not undo the writes, as follows. The round trips of a call to the
  store (each query, each flush, the commit) are counted from 0, and the identifiers
  drawn are not in use.
  \<^item> \<open>add_interaction\<close> on an existing conversation: a failure at round trip 0 (flush of
    the user message) leaves the cache as it was; at 1 (flush of the assistant message)
    it leaves the user message pushed; at 2 (the conversation query) both messages
    pushed; at 3 (the commit) both messages pushed and a snapshot that counts two more
    messages.
  \<^item> \<open>start_or_get_conversation\<close> creating a conversation: a failure at round trip 0, 1
    or 2 (query, conversation flush, message flush) leaves the cache as it was; at 3 (the
    commit) it leaves the message pushed and the snapshot of the new conversation.
  \<^item> \<open>start_or_get_conversation\<close> continuing a conversation: a failure at round trip 0
    or 1 (query, message flush) leaves the cache as it was; at 2 (the commit) it leaves
    the message pushed.

  In each of these cases the call raises and the store is left as it was.
\<close>

theorem cache_written_before_commit:
  "(find (\<lambda>c. conversation_id c = cid) (conversations (db w)) = Some conv
      \<and> uuid4 e 0 \<notin> set (map msg_id (messages (db w)))
      \<and> uuid4 e 1 \<notin> set (map msg_id (messages (db w))) \<and> uuid4 e 0 \<noteq> uuid4 e 1 \<longrightarrow>
      (let run = add_interaction w e cid user_message agent_response md;
           pushed1 = add_message (cache w) cid (message_dict e ''user'' user_message None) (clock e);
           pushed2 = add_message pushed1 cid
                       (message_dict e ''assistant'' agent_response md) (clock e)
       in (fails_at e = Some 0 \<longrightarrow>
             fst run = Inl OperationalError \<and> db (snd run) = db w \<and> cache (snd run) = cache w)
          \<and> (fails_at e = Some 1 \<longrightarrow>
             fst run = Inl OperationalError \<and> db (snd run) = db w \<and> cache (snd run) = pushed1)
          \<and> (fails_at e = Some 2 \<longrightarrow>
             fst run = Inl OperationalError \<and> db (snd run) = db w \<and> cache (snd run) = pushed2)
          \<and> (fails_at e = Some 3 \<longrightarrow>
             fst run = Inl OperationalError \<and> db (snd run) = db w
             \<and> (\<exists>conv1. message_count conv1 = message_count conv + 2
                   \<and> cache (snd run) = internal_cache_conversation pushed2 conv1 (clock e)))))
   \<and> ((\<forall>conv\<in>set (conversations (db w)). \<not> active_recent cust (clock e) conv)
      \<and> uuid4 e 0 \<notin> set (map conversation_id (conversations (db w)))
      \<and> uuid4 e 1 \<notin> set (map msg_id (messages (db w))) \<longrightarrow>
      (let run = start_or_get_conversation w e cust initial_message ctx
       in (fails_at e = Some 0 \<or> fails_at e = Some 1 \<or> fails_at e = Some 2 \<longrightarrow>
             fst run = Inl OperationalError \<and> db (snd run) = db w \<and> cache (snd run) = cache w)
          \<and> (fails_at e = Some 3 \<longrightarrow>
             fst run = Inl OperationalError \<and> db (snd run) = db w
             \<and> cache (snd run) =
                 internal_cache_conversation
                   (add_message (cache w) (uuid4 e 0)
                      (message_dict e ''user'' initial_message None) (clock e))
                   (new_conversation_row (uuid4 e 0) cust ctx (clock e)) (clock e))))
   \<and> ((\<exists>conv\<in>set (conversations (db w)). active_recent cust (clock e) conv)
      \<and> uuid4 e 0 \<notin> set (map msg_id (messages (db w))) \<longrightarrow>
      (let run = start_or_get_conversation w e cust initial_message ctx
       in (fails_at e = Some 0 \<or> fails_at e = Some 1 \<longrightarrow>
             fst run = Inl OperationalError \<and> db (snd run) = db w \<and> cache (snd run) = cache w)
          \<and> (fails_at e = Some 2 \<longrightarrow>
             fst run = Inl OperationalError \<and> db (snd run) = db w
             \<and> (\<exists>conv\<in>set (conversations (db w)).
                   cache (snd run) =
                     add_message (cache w) (conversation_id conv)
                       (message_dict e ''user'' initial_message None) (clock e)))))"
proof (intro conjI impI)
  let ?run = "add_interaction w e cid user_message agent_response md"
  assume "find (\<lambda>c. conversation_id c = cid) (conversations (db w)) = Some conv
      \<and> uuid4 e 0 \<notin> set (map msg_id (messages (db w)))
      \<and> uuid4 e 1 \<notin> set (map msg_id (messages (db w))) \<and> uuid4 e 0 \<noteq> uuid4 e 1"
  then have a: "find (\<lambda>c. conversation_id c = cid) (conversations (db w)) = Some conv"
    "uuid4 e 0 \<notin> set (map msg_id (messages (db w)))"
    "uuid4 e 1 \<notin> set (map msg_id (messages (db w)))" "uuid4 e 0 \<noteq> uuid4 e 1"
    by simp_all
  have "?run = (fst ?run, snd ?run)" by simp
  from add_interaction_cache_before_commit [OF this a]
  show "let run = add_interaction w e cid user_message agent_response md;
           pushed1 = add_message (cache w) cid (message_dict e ''user'' user_message None) (clock e);
           pushed2 = add_message pushed1 cid
                       (message_dict e ''assistant'' agent_response md) (clock e)
       in (fails_at e = Some 0 \<longrightarrow>
             fst run = Inl OperationalError \<and> db (snd run) = db w \<and> cache (snd run) = cache w)
          \<and> (fails_at e = Some 1 \<longrightarrow>
             fst run = Inl OperationalError \<and> db (snd run) = db w \<and> cache (snd run) = pushed1)
          \<and> (fails_at e = Some 2 \<longrightarrow>
             fst run = Inl OperationalError \<and> db (snd run) = db w \<and> cache (snd run) = pushed2)
          \<and> (fails_at e = Some 3 \<longrightarrow>
             fst run = Inl OperationalError \<and> db (snd run) = db w
             \<and> (\<exists>conv1. message_count conv1 = message_count conv + 2
                   \<and> cache (snd run) = internal_cache_conversation pushed2 conv1 (clock e)))"
    unfolding Let_def by blast
next
  let ?run = "start_or_get_conversation w e cust initial_message ctx"
  assume "(\<forall>conv\<in>set (conversations (db w)). \<not> active_recent cust (clock e) conv)
      \<and> uuid4 e 0 \<notin> set (map conversation_id (conversations (db w)))
      \<and> uuid4 e 1 \<notin> set (map msg_id (messages (db w)))"
  then have a: "\<forall>conv\<in>set (conversations (db w)). \<not> active_recent cust (clock e) conv"
    "uuid4 e 0 \<notin> set (map conversation_id (conversations (db w)))"
    "uuid4 e 1 \<notin> set (map msg_id (messages (db w)))"
    by simp_all
  have "?run = (fst ?run, snd ?run)" by simp
  from start_or_get_conversation_create_steps [OF this a]
  show "let run = start_or_get_conversation w e cust initial_message ctx
       in (fails_at e = Some 0 \<or> fails_at e = Some 1 \<or> fails_at e = Some 2 \<longrightarrow>
             fst run = Inl OperationalError \<and> db (snd run) = db w \<and> cache (snd run) = cache w)
          \<and> (fails_at e = Some 3 \<longrightarrow>
             fst run = Inl OperationalError \<and> db (snd run) = db w
             \<and> cache (snd run) =
                 internal_cache_conversation
                   (add_message (cache w) (uuid4 e 0)
                      (message_dict e ''user'' initial_message None) (clock e))
                   (new_conversation_row (uuid4 e 0) cust ctx (clock e)) (clock e))"
    unfolding Let_def by blast
next
  let ?run = "start_or_get_conversation w e cust initial_message ctx"
  assume "(\<exists>conv\<in>set (conversations (db w)). active_recent cust (clock e) conv)
      \<and> uuid4 e 0 \<notin> set (map msg_id (messages (db w)))"
  then have a: "\<exists>conv\<in>set (conversations (db w)). active_recent cust (clock e) conv"
    "uuid4 e 0 \<notin> set (map msg_id (messages (db w)))"
    by simp_all
  have "?run = (fst ?run, snd ?run)" by simp
  from start_or_get_conversation_continue_steps [OF this a]
  show "let run = start_or_get_conversation w e cust initial_message ctx
       in (fails_at e = Some 0 \<or> fails_at e = Some 1 \<longrightarrow>
             fst run = Inl OperationalError \<and> db (snd run) = db w \<and> cache (snd run) = cache w)
          \<and> (fails_at e = Some 2 \<longrightarrow>
             fst run = Inl OperationalError \<and> db (snd run) = db w
             \<and> (\<exists>conv\<in>set (conversations (db w)).
                   cache (snd run) =
                     add_message (cache w) (conversation_id conv)
                       (message_dict e ''user'' initial_message None) (clock e)))"
    unfolding Let_def by blast
qed

text \<open>
  The theorem at concrete inputs: \<open>add_interaction\<close> failing at the flush of the
  assistant message, and the commit failing for a new conversation.
\<close>

theorem cache_written_before_commit_witness:
  "fst (add_interaction world_c1 (env_at 2000 ''n'' (Some 1)) ''c1'' ''again'' ''reply'' None)
     = Inl OperationalError
   \<and> db (snd (add_interaction world_c1 (env_at 2000 ''n'' (Some 1)) ''c1'' ''again'' ''reply'' None))
     = db world_c1
   \<and> cache (snd (add_interaction world_c1 (env_at 2000 ''n'' (Some 1)) ''c1'' ''again'' ''reply'' None))
     = add_message (cache world_c1) ''c1''
         (message_dict (env_at 2000 ''n'' (Some 1)) ''user'' ''again'' None) 2000
   \<and> fst (start_or_get_conversation (empty_world False) (env_at 1000 ''c1'' (Some 3))
            ''cust'' ''hello'' None) = Inl OperationalError
   \<and> db (snd (start_or_get_conversation (empty_world False) (env_at 1000 ''c1'' (Some 3))
            ''cust'' ''hello'' None)) = db (empty_world False)
   \<and> cache (snd (start_or_get_conversation (empty_world False) (env_at 1000 ''c1'' (Some 3))
            ''cust'' ''hello'' None))
     = internal_cache_conversation
         (add_message (cache (empty_world False)) ''c1''
            (message_dict (env_at 1000 ''c1'' (Some 3)) ''user'' ''hello'' None) 1000)
         (new_conversation_row ''c1'' ''cust'' None 1000) 1000"
proof -
  let ?e1 = "env_at 2000 ''n'' (Some 1)"
  let ?e2 = "env_at 1000 ''c1'' (Some 3)"
  have h1: "find (\<lambda>c. conversation_id c = ''c1'') (conversations (db world_c1)) = Some conv_c1
      \<and> uuid4 ?e1 0 \<notin> set (map msg_id (messages (db world_c1)))
      \<and> uuid4 ?e1 1 \<notin> set (map msg_id (messages (db world_c1))) \<and> uuid4 ?e1 0 \<noteq> uuid4 ?e1 1"
    by (simp add: world_c1_def db_c1_def conv_c1_def msg_m1_def new_conversation_row_def
        env_at_def uuid_seq_def)
  have f1: "fails_at ?e1 = Some 1" by (simp add: env_at_def)
  have h2: "(\<forall>conv\<in>set (conversations (db (empty_world False))).
               \<not> active_recent ''cust'' (clock ?e2) conv)
      \<and> uuid4 ?e2 0 \<notin> set (map conversation_id (conversations (db (empty_world False))))
      \<and> uuid4 ?e2 1 \<notin> set (map msg_id (messages (db (empty_world False))))"
    by (simp add: empty_world_def empty_db_def)
  have f2: "fails_at ?e2 = Some 3" by (simp add: env_at_def)
  have t2: "clock ?e2 = 1000" "uuid4 ?e2 0 = ''c1''" "clock ?e1 = 2000"
    by (simp_all add: env_at_def uuid_seq_def)
  from cache_written_before_commit [where w = world_c1 and e = ?e1 and cid = "''c1''"
      and conv = conv_c1 and user_message = "''again''" and agent_response = "''reply''"
      and md = None] h1 f1
  have first: "fst (add_interaction world_c1 ?e1 ''c1'' ''again'' ''reply'' None) = Inl OperationalError
    \<and> db (snd (add_interaction world_c1 ?e1 ''c1'' ''again'' ''reply'' None)) = db world_c1
    \<and> cache (snd (add_interaction world_c1 ?e1 ''c1'' ''again'' ''reply'' None))
      = add_message (cache world_c1) ''c1'' (message_dict ?e1 ''user'' ''again'' None) (clock ?e1)"
    unfolding Let_def by blast
  from cache_written_before_commit [where w = "empty_world False" and e = ?e2
      and cust = "''cust''" and initial_message = "''hello''" and ctx = None] h2 f2
  have second: "fst (start_or_get_conversation (empty_world False) ?e2 ''cust'' ''hello'' None)
      = Inl OperationalError
    \<and> db (snd (start_or_get_conversation (empty_world False) ?e2 ''cust'' ''hello'' None))
      = db (empty_world False)
    \<and> cache (snd (start_or_get_conversation (empty_world False) ?e2 ''cust'' ''hello'' None))
      = internal_cache_conversation
          (add_message (cache (empty_world False)) (uuid4 ?e2 0)
             (message_dict ?e2 ''user'' ''hello'' None) (clock ?e2))
          (new_conversation_row (uuid4 ?e2 0) ''cust'' None (clock ?e2)) (clock ?e2)"
    unfolding Let_def by blast
  from first second show ?thesis unfolding t2 by blast
qed

text \<open>
  Claim C2 as stated fails: \<open>add_interaction\<close> raises at the flush of the assistant
  message, the store is rolled back, and the cache window of the conversation, empty
  before, holds the user message of the aborted call.
\<close>

theorem rollback_leaves_cache_counterexample:
  "fst (add_interaction world_c1 (env_at 2000 ''n'' (Some 1)) ''c1'' ''again'' ''reply'' None)
     = Inl OperationalError
   \<and> db (snd (add_interaction world_c1 (env_at 2000 ''n'' (Some 1)) ''c1'' ''again'' ''reply'' None))
     = db world_c1
   \<and> get_recent_messages (cache world_c1) ''c1'' 10 2000 = None
   \<and> map_option (map cm_content)
        (get_recent_messages
           (cache (snd (add_interaction world_c1 (env_at 2000 ''n'' (Some 1)) ''c1''
                          ''again'' ''reply'' None))) ''c1'' 10 2000)
     = Some [''again'']"
  by code_simp

section \<open>Where the code departs from the specification\<close>

text \<open>
  Claim C1 fails on the continuation path. The store holds conversation \<open>c1\<close> with
  \<open>message_count\<close> 1 and one message. A second message of the same customer continues
  \<open>c1\<close>: a second row is added and \<open>message_count\<close> stays 1. The creation path sets
  the count to 1 for its one row, and \<open>add_interaction\<close> adds 2 for its two rows.
\<close>

theorem continued_conversation_miscounts:
  "fst (start_or_get_conversation world_c1 (env_at 2000 ''m2'' None) ''cust'' ''again'' None)
     = Inr ''c1''
   \<and> map message_count
        (conversations (db (snd (start_or_get_conversation world_c1 (env_at 2000 ''m2'' None)
                                   ''cust'' ''again'' None)))) = [1]
   \<and> map msg_content
        (filter (\<lambda>m. msg_conversation_id m = ''c1'')
           (messages (db (snd (start_or_get_conversation world_c1 (env_at 2000 ''m2'' None)
                                 ''cust'' ''again'' None))))) = [''hello'', ''again'']"
  by code_simp

text \<open>
  Claim C6 fails on the user message. \<open>c1\<close> already holds the user message
  \<open>hello\<close>; \<open>add_interaction\<close> with the same user message adds it again, although
  the comment in the code says "if not already added". The count grows by the two rows
  added.
\<close>

theorem add_interaction_repeats_user_message:
  "fst (add_interaction world_c1 (env_at 2000 ''n'' None) ''c1'' ''hello'' ''hi there'' None) = Inr ()
   \<and> map (\<lambda>m. (msg_role m, msg_content m)) (messages (db world_c1)) = [(''user'', ''hello'')]
   \<and> map (\<lambda>m. (msg_role m, msg_content m))
        (messages (db (snd (add_interaction world_c1 (env_at 2000 ''n'' None) ''c1''
                              ''hello'' ''hi there'' None))))
     = [(''user'', ''hello''), (''user'', ''hello''), (''assistant'', ''hi there'')]
   \<and> map message_count
        (conversations (db (snd (add_interaction world_c1 (env_at 2000 ''n'' None) ''c1''
                                   ''hello'' ''hi there'' None)))) = [3]"
  by code_simp

text \<open>
  Claim C7 fails for a context served from the cache. After \<open>add_interaction\<close>, and
  after the creation of a conversation, the cached snapshot is the one written by
  \<open>_cache_conversation\<close>, which has no \<open>duration_minutes\<close>, \<open>created_at\<close> or
  \<open>updated_at\<close> key; the context read from the store has all three.
\<close>

theorem cached_context_lacks_duration:
  "(case fst (get_conversation_context
               (snd (add_interaction world_c1 (env_at 2000 ''n'' None) ''c1''
                       ''again'' ''reply'' None))
               (env_at 3000 ''q'' None) ''c1'') of
      Inr (Some snap) \<Rightarrow>
        s_duration_minutes snap = None \<and> s_created_at snap = None \<and> s_updated_at snap = None
    | _ \<Rightarrow> False)
   \<and> (case fst (get_conversation_context
               (snd (start_or_get_conversation (empty_world False) (env_at 1000 ''c1'' None)
                       ''cust'' ''hello'' None))
               (env_at 3000 ''q'' None) ''c1'') of
      Inr (Some snap) \<Rightarrow>
        s_duration_minutes snap = None \<and> s_created_at snap = None \<and> s_updated_at snap = None
    | _ \<Rightarrow> False)
   \<and> (case fst (get_conversation_context world_c1 (env_at 3000 ''q'' None) ''c1'') of
      Inr (Some snap) \<Rightarrow>
        s_duration_minutes snap = Some 0 \<and> s_created_at snap = Some 1000
        \<and> s_updated_at snap = Some 1000
    | _ \<Rightarrow> False)"
  by code_simp

text \<open>
  Claim C10 fails when the conversation has two messages. On a cold cache the history
  comes from the store, oldest first, and is pushed to the cache window message by
  message; the second call is served from the window, newest first.
\<close>

theorem history_order_depends_on_cache:
  "fst (get_conversation_history world_c1_two_messages (env_at 3000 ''q'' None) ''c1'' 20)
     = Inr [history_entry msg_m1, history_entry msg_m2]
   \<and> fst (get_conversation_history
            (snd (get_conversation_history world_c1_two_messages (env_at 3000 ''q'' None) ''c1'' 20))
            (env_at 3001 ''q'' None) ''c1'' 20)
     = Inr [history_entry msg_m2, history_entry msg_m1]
   \<and> history_entry msg_m1 \<noteq> history_entry msg_m2"
  by code_simp

end
